theory Spec2Isabelle
  imports Complex_Main "HOL-Library.AList" "HOL-Library.Multiset" "HOL-Library.Sublist"
    "HOL-Library.Countable"
begin

section \<open>Data model (data\_models.py)\<close>

text \<open>
  A Python \<open>float\<close> is a finite value, an infinity or a NaN. The finite values are
  binary fractions and are modelled by the rationals. \<open>created_timestamp: float\<close>
  admits all of them: pydantic accepts \<open>inf\<close> and \<open>nan\<close> for a \<open>float\<close> field, and the
  JSON of a request can carry them. \<open>float_lt\<close> is Python's \<open><\<close>; \<open>a > b\<close> is \<open>b < a\<close>.
  Every comparison with a NaN is false.
\<close>

datatype pyfloat = Finite rat | PosInf | NegInf | NaN

fun float_lt :: "pyfloat \<Rightarrow> pyfloat \<Rightarrow> bool" where
  "float_lt NaN y = False"
| "float_lt x NaN = False"
| "float_lt (Finite a) (Finite b) = (a < b)"
| "float_lt (Finite a) PosInf = True"
| "float_lt (Finite a) NegInf = False"
| "float_lt PosInf y = False"
| "float_lt NegInf NegInf = False"
| "float_lt NegInf y = True"

definition float_gt :: "pyfloat \<Rightarrow> pyfloat \<Rightarrow> bool" where
  "float_gt x y = float_lt y x"

text \<open>
  The pydantic models become records with the source's field names (the source spells
  \<open>catagory\<close>). Where two models share a field name the selector is written with its
  record's name, as in \<open>PostMetadata.post_id\<close>.

  A Python \<open>dict\<close> keeps its keys in insertion order, and \<open>get_posts\<close> iterates over
  it, so both dictionaries of the store are association lists: \<open>map_of\<close> is the lookup,
  \<open>AList.update\<close> is the assignment \<open>d[k] = v\<close> (a key that is present keeps its place,
  a new key goes last) and \<open>AList.delete\<close> is \<open>del d[k]\<close>.
\<close>

record PostMetadata =
  title :: string
  abstract :: string
  link :: string
  created_timestamp :: pyfloat
  catagory :: string
  tags :: "string list"
  comments :: "string list"
  post_id :: string

record CommentData =
  name :: string
  content :: string
  contact_address :: string
  created_timestamp :: pyfloat
  ip_address :: string
  comment_id :: string
  post_id :: string
  display :: bool

record DisplayCommentData =
  name :: string
  content :: string
  created_timestamp :: int

record AddCommentData =
  name :: string
  content :: string
  contact_address :: string

record AddOrUpdateCommentResult =
  result :: string
  comment_id :: string

text \<open>
  The state of a \<open>Lablog\<close> object. \<open>BlogData\<close> has the same two fields, so the snapshot
  that \<open>serialize\<close> hands to pydantic is a value of this record as well.
\<close>

record Lablog =
  posts :: "(string \<times> PostMetadata) list"
  comments :: "(string \<times> CommentData) list"

section \<open>Exceptions and statements\<close>

text \<open>
  An operation that mutates the store returns its outcome together with the store it
  leaves behind: \<open>Inr v\<close> is a normal return of \<open>v\<close>, \<open>Inl e\<close> is the exception \<open>e\<close>
  leaving the method. The store is returned in both cases, since a Python exception
  does not undo the assignments made before it. The spec calls \<open>ValueError\<close>
  \<open>InvalidInput\<close> and \<open>KeyError\<close> \<open>NotFound\<close>.
\<close>

datatype error = ValueError | KeyError | OverflowError | TypeError | ValidationError
  | FileNotFoundError | HTTPException nat

type_synonym 'a outcome = "(error + 'a) \<times> Lablog"

text \<open>\<open>self.posts[post_id].attr = v\<close>: the subscript raises \<open>KeyError\<close> on a missing key.\<close>

definition set_post_attr ::
    "string \<Rightarrow> (PostMetadata \<Rightarrow> PostMetadata) \<Rightarrow> Lablog \<Rightarrow> unit outcome" where
  "set_post_attr pid f s =
     (case map_of (posts s) pid of
        None \<Rightarrow> (Inl KeyError, s)
      | Some p \<Rightarrow> (Inr (), s\<lparr>posts := AList.update pid (f p) (posts s)\<rparr>))"

text \<open>\<open>self.comments[comment_id].attr = v\<close>.\<close>

definition set_comment_attr ::
    "string \<Rightarrow> (CommentData \<Rightarrow> CommentData) \<Rightarrow> Lablog \<Rightarrow> unit outcome" where
  "set_comment_attr cid f s =
     (case map_of (Lablog.comments s) cid of
        None \<Rightarrow> (Inl KeyError, s)
      | Some c \<Rightarrow> (Inr (), s\<lparr>Lablog.comments := AList.update cid (f c) (Lablog.comments s)\<rparr>))"

text \<open>\<open>if v is not None: stmt(v)\<close>.\<close>

definition if_not_None :: "'a option \<Rightarrow> ('a \<Rightarrow> Lablog \<Rightarrow> unit outcome) \<Rightarrow> Lablog \<Rightarrow> unit outcome" where
  "if_not_None v stmt s = (case v of None \<Rightarrow> (Inr (), s) | Some x \<Rightarrow> stmt x s)"

text \<open>A block of statements: the first exception ends it.\<close>

fun run_stmts :: "(Lablog \<Rightarrow> unit outcome) list \<Rightarrow> Lablog \<Rightarrow> unit outcome" where
  "run_stmts [] s = (Inr (), s)"
| "run_stmts (c # cs) s =
     (case c s of
        (Inl e, s') \<Rightarrow> (Inl e, s')
      | (Inr u, s') \<Rightarrow> run_stmts cs s')"

section \<open>Library functions\<close>

text \<open>
  JSON documents. The file \<open>blogdata.json\<close> is modelled by the document it holds, not
  by its text: \<open>json.loads\<close> applied to the text that \<open>model_dump_json\<close> wrote gives back
  the document that was dumped, and the syntax of JSON text (indentation, escapes, the
  digits of a number) is not modelled. The keys of an object are distinct, as they are
  in the \<open>dict\<close> that \<open>json.loads\<close> returns.
\<close>

datatype json = JNull | JBool bool | JNumber rat | JString string | JArray "json list"
  | JObject "(string \<times> json) list"

instance json :: countable
  by countable_datatype

text \<open>
  The code of these library functions is not part of the repository; they are
  parameters of the model:
  \<^item> \<open>str_lower\<close> is \<open>str.lower\<close>;
  \<^item> \<open>list_sort key reverse xs\<close> is \<open>xs.sort(key=key, reverse=reverse)\<close> on a list of posts
    with \<open>float\<close> keys;
  \<^item> \<open>sha256_hexdigest\<close> is \<open>hashlib.sha256(...).hexdigest()\<close> of the text of a document;
  \<^item> \<open>validate_float\<close> and \<open>validate_bool\<close> are pydantic's validation of one value for a
    field of type \<open>float\<close> and \<open>bool\<close> (\<open>None\<close> is a validation error); pydantic's lax
    mode also accepts some values of other types for them.
\<close>

record Library =
  str_lower :: "string \<Rightarrow> string"
  list_sort :: "(PostMetadata \<Rightarrow> pyfloat) \<Rightarrow> bool \<Rightarrow> PostMetadata list \<Rightarrow> PostMetadata list"
  sha256_hexdigest :: "json \<Rightarrow> string"
  validate_float :: "json \<Rightarrow> pyfloat option"
  validate_bool :: "json \<Rightarrow> bool option"

text \<open>
  What Python documents of \<open>list.sort\<close>: it sorts in place, using only \<open><\<close> between
  items; it is stable; with \<open>reverse=True\<close> the items are sorted as if each comparison
  were reversed, still stably. Where \<open><\<close> is a total order on the keys, that is where
  no key is a NaN, this fixes the result: it is what the insertion sort \<open>sort_lt\<close>
  returns (for \<open>reverse=True\<close>, on the reversed list, reversed again). With a NaN among
  the keys the result is some rearrangement of the list, which depends on the
  algorithm.
\<close>

fun insort_lt :: "('a \<Rightarrow> pyfloat) \<Rightarrow> 'a \<Rightarrow> 'a list \<Rightarrow> 'a list" where
  "insort_lt key x [] = [x]"
| "insort_lt key x (y # ys) =
     (if float_lt (key y) (key x) then y # insort_lt key x ys else x # y # ys)"

definition sort_lt :: "('a \<Rightarrow> pyfloat) \<Rightarrow> 'a list \<Rightarrow> 'a list" where
  "sort_lt key xs = foldr (insort_lt key) xs []"

definition list_sort_contract :: "Library \<Rightarrow> bool" where
  "list_sort_contract lib =
     (\<forall>key reverse xs.
        mset (list_sort lib key reverse xs) = mset xs \<and>
        (list_all (\<lambda>x. key x \<noteq> NaN) xs \<longrightarrow>
           list_sort lib key reverse xs =
             (if reverse then rev (sort_lt key (rev xs)) else sort_lt key xs)))"

text \<open>
  What pydantic documents of the validation of a \<open>float\<close> and a \<open>bool\<close> field: a JSON
  number is accepted as that float, \<open>null\<close> is rejected, \<open>true\<close> and \<open>false\<close> are accepted
  as themselves.
\<close>

definition validate_contract :: "Library \<Rightarrow> bool" where
  "validate_contract lib =
     ((\<forall>r. validate_float lib (JNumber r) = Some (Finite r)) \<and>
      validate_float lib JNull = None \<and>
      (\<forall>b. validate_bool lib (JBool b) = Some b))"

section \<open>The store (lablog.py, class Lablog)\<close>

text \<open>
  \<open>uuid.uuid4().__str__()\<close> and \<open>time.time()\<close> are inputs of the model: every operation
  that calls them takes the generated id \<open>uuid\<close> and the clock reading \<open>now\<close>, a finite
  number, as arguments. Optional parameters are \<open>option\<close> values, \<open>None\<close> being Python's
  \<open>None\<close>.
\<close>

definition Lablog_init :: Lablog where
  "Lablog_init = \<lparr>posts = [], Lablog.comments = []\<rparr>"

definition add_post ::
    "Lablog \<Rightarrow> string \<Rightarrow> rat \<Rightarrow> string \<Rightarrow> string \<Rightarrow> string \<Rightarrow> pyfloat option \<Rightarrow> string option \<Rightarrow>
     string list option \<Rightarrow> string \<times> Lablog" where
  "add_post s uuid now title_arg abstract_arg link_arg ts_arg catagory_arg tags_arg =
     (let post = \<lparr>title = title_arg,
                  abstract = abstract_arg,
                  link = link_arg,
                  PostMetadata.created_timestamp = (case ts_arg of Some t \<Rightarrow> t | None \<Rightarrow> Finite now),
                  catagory = (case catagory_arg of Some c \<Rightarrow> c | None \<Rightarrow> ''Miscellaneous''),
                  tags = (case tags_arg of Some l \<Rightarrow> l | None \<Rightarrow> []),
                  PostMetadata.comments = [],
                  PostMetadata.post_id = uuid\<rparr>
      in (uuid, s\<lparr>posts := AList.update uuid post (posts s)\<rparr>))"

definition modify_post ::
    "Lablog \<Rightarrow> string \<Rightarrow> string option \<Rightarrow> string option \<Rightarrow> string option \<Rightarrow> pyfloat option \<Rightarrow>
     string option \<Rightarrow> string list option \<Rightarrow> unit outcome" where
  "modify_post s pid title_arg abstract_arg link_arg ts_arg catagory_arg tags_arg =
     run_stmts
       [if_not_None title_arg (\<lambda>v. set_post_attr pid (\<lambda>p. p\<lparr>title := v\<rparr>)),
        if_not_None abstract_arg (\<lambda>v. set_post_attr pid (\<lambda>p. p\<lparr>abstract := v\<rparr>)),
        if_not_None link_arg (\<lambda>v. set_post_attr pid (\<lambda>p. p\<lparr>link := v\<rparr>)),
        if_not_None ts_arg (\<lambda>v. set_post_attr pid (\<lambda>p. p\<lparr>PostMetadata.created_timestamp := v\<rparr>)),
        if_not_None catagory_arg (\<lambda>v. set_post_attr pid (\<lambda>p. p\<lparr>catagory := v\<rparr>)),
        if_not_None tags_arg (\<lambda>v. set_post_attr pid (\<lambda>p. p\<lparr>tags := v\<rparr>))]
       s"

text \<open>
  \<open>add_comment\<close>: the membership test \<open>post_id not in self.posts\<close> and the later subscript
  \<open>self.posts[post_id]\<close> are the one lookup of the \<open>case\<close>; nothing between them touches
  \<open>posts\<close>.
\<close>

definition add_comment ::
    "Lablog \<Rightarrow> string \<Rightarrow> rat \<Rightarrow> string \<Rightarrow> string \<Rightarrow> string \<Rightarrow> string \<Rightarrow> pyfloat option \<Rightarrow>
     string option \<Rightarrow> bool \<Rightarrow> string outcome" where
  "add_comment s uuid now name_arg content_arg contact_arg pid ts_arg ip_arg display_arg =
     (case map_of (posts s) pid of
        None \<Rightarrow> (Inl ValueError, s)
      | Some p \<Rightarrow>
          (let comment = \<lparr>CommentData.name = name_arg,
                          CommentData.content = content_arg,
                          CommentData.contact_address = contact_arg,
                          CommentData.created_timestamp =
                            (case ts_arg of Some t \<Rightarrow> t | None \<Rightarrow> Finite now),
                          ip_address = (case ip_arg of Some a \<Rightarrow> a | None \<Rightarrow> ''No IP info''),
                          CommentData.comment_id = uuid,
                          CommentData.post_id = pid,
                          display = display_arg\<rparr>
           in (Inr uuid,
               s\<lparr>Lablog.comments := AList.update uuid comment (Lablog.comments s),
                 posts := AList.update pid
                            (p\<lparr>PostMetadata.comments := PostMetadata.comments p @ [uuid]\<rparr>) (posts s)\<rparr>)))"

definition modify_comment ::
    "Lablog \<Rightarrow> string \<Rightarrow> string option \<Rightarrow> string option \<Rightarrow> string option \<Rightarrow> pyfloat option \<Rightarrow>
     string option \<Rightarrow> string option \<Rightarrow> bool option \<Rightarrow> unit outcome" where
  "modify_comment s cid name_arg content_arg contact_arg ts_arg ip_arg pid_arg display_arg =
     run_stmts
       [if_not_None name_arg (\<lambda>v. set_comment_attr cid (\<lambda>c. c\<lparr>CommentData.name := v\<rparr>)),
        if_not_None content_arg (\<lambda>v. set_comment_attr cid (\<lambda>c. c\<lparr>CommentData.content := v\<rparr>)),
        if_not_None contact_arg (\<lambda>v. set_comment_attr cid (\<lambda>c. c\<lparr>CommentData.contact_address := v\<rparr>)),
        if_not_None ts_arg (\<lambda>v. set_comment_attr cid (\<lambda>c. c\<lparr>CommentData.created_timestamp := v\<rparr>)),
        if_not_None ip_arg (\<lambda>v. set_comment_attr cid (\<lambda>c. c\<lparr>ip_address := v\<rparr>)),
        if_not_None pid_arg (\<lambda>v. set_comment_attr cid (\<lambda>c. c\<lparr>CommentData.post_id := v\<rparr>)),
        if_not_None display_arg (\<lambda>v. set_comment_attr cid (\<lambda>c. c\<lparr>display := v\<rparr>))]
       s"

text \<open>
  \<open>delete_comment\<close>: \<open>self.posts[post_id]\<close> raises \<open>KeyError\<close> on a missing post,
  \<open>list.remove\<close> raises \<open>ValueError\<close> when the id is not in the list and removes the first
  occurrence otherwise (\<open>remove1\<close>); both come before \<open>del self.comments[comment_id]\<close>.
\<close>

definition delete_comment :: "Lablog \<Rightarrow> string \<Rightarrow> unit outcome" where
  "delete_comment s cid =
     (case map_of (Lablog.comments s) cid of
        None \<Rightarrow> (Inr (), s)
      | Some c \<Rightarrow>
          (case map_of (posts s) (CommentData.post_id c) of
             None \<Rightarrow> (Inl KeyError, s)
           | Some p \<Rightarrow>
               if cid \<notin> set (PostMetadata.comments p) then (Inl ValueError, s)
               else (Inr (),
                     s\<lparr>posts := AList.update (CommentData.post_id c)
                                  (p\<lparr>PostMetadata.comments := remove1 cid (PostMetadata.comments p)\<rparr>)
                                  (posts s),
                       Lablog.comments := AList.delete cid (Lablog.comments s)\<rparr>)))"

section \<open>Queries (lablog.py, PostFilter and the get methods)\<close>

text \<open>
  A \<open>PostFilter\<close> object holds the list \<open>filters\<close> of closures; \<open>add_filter\<close> appends,
  \<open>apply_filters\<close> is the loop that returns \<open>False\<close> at the first filter that rejects.
\<close>

type_synonym PostFilter = "(PostMetadata \<Rightarrow> bool) list"

definition PostFilter_init :: PostFilter where
  "PostFilter_init = []"

definition add_filter :: "PostFilter \<Rightarrow> (PostMetadata \<Rightarrow> bool) \<Rightarrow> PostFilter" where
  "add_filter pf f = pf @ [f]"

fun apply_filters :: "PostFilter \<Rightarrow> PostMetadata \<Rightarrow> bool" where
  "apply_filters [] data = True"
| "apply_filters (f # fs) data = (if \<not> f data then False else apply_filters fs data)"

definition generate_post_id_filter :: "string \<Rightarrow> PostMetadata \<Rightarrow> bool" where
  "generate_post_id_filter pid data = (PostMetadata.post_id data = pid)"

definition generate_post_id_list_filter :: "string list \<Rightarrow> PostMetadata \<Rightarrow> bool" where
  "generate_post_id_list_filter pid_list data = (PostMetadata.post_id data \<in> set pid_list)"

definition generate_catagory_filter :: "string \<Rightarrow> PostMetadata \<Rightarrow> bool" where
  "generate_catagory_filter cat data = (catagory data = cat)"

definition generate_tag_filter :: "string \<Rightarrow> PostMetadata \<Rightarrow> bool" where
  "generate_tag_filter tag data = (tag \<in> set (tags data))"

text \<open>The loop of \<open>generate_tags_filter\<close>: \<open>r = False; break\<close> at the first missing tag.\<close>

fun tags_loop :: "string list \<Rightarrow> PostMetadata \<Rightarrow> bool" where
  "tags_loop [] data = True"
| "tags_loop (tag # rest) data = (if tag \<notin> set (tags data) then False else tags_loop rest data)"

definition generate_tags_filter :: "string list \<Rightarrow> PostMetadata \<Rightarrow> bool" where
  "generate_tags_filter tag_list data = tags_loop tag_list data"

definition generate_after_timestamp_filter :: "pyfloat \<Rightarrow> PostMetadata \<Rightarrow> bool" where
  "generate_after_timestamp_filter timestamp data =
     float_gt (PostMetadata.created_timestamp data) timestamp"

definition generate_before_timestamp_filter :: "pyfloat \<Rightarrow> PostMetadata \<Rightarrow> bool" where
  "generate_before_timestamp_filter timestamp data =
     float_lt (PostMetadata.created_timestamp data) timestamp"

text \<open>The loop \<open>for post in self.posts.values(): if pf.apply_filters(post): c.posts.append(post)\<close>.\<close>

fun posts_loop :: "PostFilter \<Rightarrow> PostMetadata list \<Rightarrow> PostMetadata list \<Rightarrow> PostMetadata list" where
  "posts_loop pf acc [] = acc"
| "posts_loop pf acc (post # rest) =
     posts_loop pf (if apply_filters pf post then acc @ [post] else acc) rest"

text \<open>
  The two shapes of guard in \<open>get_posts\<close>: \<open>if x is not None: pf.add_filter(gen(x))\<close> and
  \<open>if x is not None and len(x) > 0: pf.add_filter(gen(x))\<close>.
\<close>

definition add_if_not_None ::
    "'a option \<Rightarrow> ('a \<Rightarrow> PostMetadata \<Rightarrow> bool) \<Rightarrow> PostFilter \<Rightarrow> PostFilter" where
  "add_if_not_None x gen pf = (case x of Some v \<Rightarrow> add_filter pf (gen v) | None \<Rightarrow> pf)"

definition add_if_not_empty ::
    "'a list option \<Rightarrow> ('a list \<Rightarrow> PostMetadata \<Rightarrow> bool) \<Rightarrow> PostFilter \<Rightarrow> PostFilter" where
  "add_if_not_empty x gen pf =
     (case x of Some l \<Rightarrow> if length l > 0 then add_filter pf (gen l) else pf | None \<Rightarrow> pf)"

text \<open>
  \<open>get_posts\<close> returns a \<open>PostsCollection\<close>, a wrapper of the one list \<open>posts\<close>: the model
  returns the list. The last statement is
  \<open>c.posts.sort(key=lambda x: x.created_timestamp, reverse=True)\<close>.
\<close>

definition get_posts ::
    "Library \<Rightarrow> Lablog \<Rightarrow> string option \<Rightarrow> string list option \<Rightarrow> string option \<Rightarrow> string option \<Rightarrow>
     string list option \<Rightarrow> pyfloat option \<Rightarrow> pyfloat option \<Rightarrow> PostMetadata list" where
  "get_posts lib s pid_arg pid_list_arg catagory_arg tag_arg tags_arg timestamp_start timestamp_stop =
     (let pf = PostFilter_init;
          pf = add_if_not_None pid_arg generate_post_id_filter pf;
          pf = add_if_not_empty pid_list_arg generate_post_id_list_filter pf;
          pf = add_if_not_None catagory_arg generate_catagory_filter pf;
          pf = add_if_not_None tag_arg generate_tag_filter pf;
          pf = add_if_not_empty tags_arg generate_tags_filter pf;
          pf = add_if_not_None timestamp_start generate_after_timestamp_filter pf;
          pf = add_if_not_None timestamp_stop generate_before_timestamp_filter pf;
          c = posts_loop pf [] (map snd (posts s))
      in list_sort lib PostMetadata.created_timestamp True c)"

text \<open>
  Python's \<open>int(x)\<close> on a float truncates towards zero; it raises \<open>OverflowError\<close> on an
  infinity and \<open>ValueError\<close> on a NaN.
\<close>

definition trunc_toward_zero :: "rat \<Rightarrow> int" where
  "trunc_toward_zero r = (if 0 \<le> r then \<lfloor>r\<rfloor> else \<lceil>r\<rceil>)"

definition py_int :: "pyfloat \<Rightarrow> error + int" where
  "py_int x =
     (case x of
        Finite r \<Rightarrow> Inr (trunc_toward_zero r)
      | PosInf \<Rightarrow> Inl OverflowError
      | NegInf \<Rightarrow> Inl OverflowError
      | NaN \<Rightarrow> Inl ValueError)"

text \<open>The construction of one \<open>DisplayCommentData\<close>; \<open>int(...)\<close> is the one call that can raise.\<close>

definition to_display :: "CommentData \<Rightarrow> error + DisplayCommentData" where
  "to_display c =
     (case py_int (CommentData.created_timestamp c) of
        Inl e \<Rightarrow> Inl e
      | Inr t \<Rightarrow> Inr \<lparr>DisplayCommentData.name = CommentData.name c,
                      DisplayCommentData.content = CommentData.content c,
                      DisplayCommentData.created_timestamp = t\<rparr>)"

text \<open>
  The loop of \<open>get_comments_for_display\<close>; unknown ids and hidden comments are skipped,
  and an exception of \<open>int(...)\<close> leaves the loop and the method.
\<close>

fun display_loop ::
    "Lablog \<Rightarrow> DisplayCommentData list \<Rightarrow> string list \<Rightarrow> error + DisplayCommentData list" where
  "display_loop s acc [] = Inr acc"
| "display_loop s acc (cid # rest) =
     (case map_of (Lablog.comments s) cid of
        None \<Rightarrow> display_loop s acc rest
      | Some c \<Rightarrow>
          if display c then
            (case to_display c of
               Inl e \<Rightarrow> Inl e
             | Inr d \<Rightarrow> display_loop s (acc @ [d]) rest)
          else display_loop s acc rest)"

text \<open>
  The keys of the final sort are integers, which \<open><\<close> orders totally: the stable sort
  \<open>sort_key\<close> is what \<open>list.sort\<close> returns.
\<close>

definition get_comments_for_display :: "Lablog \<Rightarrow> string list \<Rightarrow> error + DisplayCommentData list" where
  "get_comments_for_display s comment_id_list =
     (case display_loop s [] comment_id_list of
        Inl e \<Rightarrow> Inl e
      | Inr c \<Rightarrow> Inr (sort_key DisplayCommentData.created_timestamp c))"

section \<open>Serialization (lablog.py, serialize and load)\<close>

text \<open>
  \<open>model_dump_json\<close> on a \<open>BlogData\<close>, from pydantic's documentation: a model is dumped
  as an object of its fields in the order of their declaration, a \<open>dict\<close> as an object
  in the order of its keys, a list as an array, a \<open>str\<close> as a string, a \<open>bool\<close> as
  \<open>true\<close> or \<open>false\<close>, a finite \<open>float\<close> as a number, and an infinite or NaN \<open>float\<close> as
  \<open>null\<close> (the default \<open>ser_json_inf_nan='null'\<close>). \<open>exclude_none=True\<close> drops the fields
  whose value is \<open>None\<close>; no field of these models holds \<open>None\<close>.
\<close>

definition dump_float :: "pyfloat \<Rightarrow> json" where
  "dump_float x = (case x of Finite r \<Rightarrow> JNumber r | _ \<Rightarrow> JNull)"

definition dump_PostMetadata :: "PostMetadata \<Rightarrow> json" where
  "dump_PostMetadata p =
     JObject [(''title'', JString (title p)),
              (''abstract'', JString (abstract p)),
              (''link'', JString (link p)),
              (''created_timestamp'', dump_float (PostMetadata.created_timestamp p)),
              (''catagory'', JString (catagory p)),
              (''tags'', JArray (map JString (tags p))),
              (''comments'', JArray (map JString (PostMetadata.comments p))),
              (''post_id'', JString (PostMetadata.post_id p))]"

definition dump_CommentData :: "CommentData \<Rightarrow> json" where
  "dump_CommentData c =
     JObject [(''name'', JString (CommentData.name c)),
              (''content'', JString (CommentData.content c)),
              (''contact_address'', JString (CommentData.contact_address c)),
              (''created_timestamp'', dump_float (CommentData.created_timestamp c)),
              (''ip_address'', JString (ip_address c)),
              (''comment_id'', JString (CommentData.comment_id c)),
              (''post_id'', JString (CommentData.post_id c)),
              (''display'', JBool (display c))]"

definition dump_BlogData :: "Lablog \<Rightarrow> json" where
  "dump_BlogData data =
     JObject [(''posts'', JObject (map (\<lambda>(k, p). (k, dump_PostMetadata p)) (posts data))),
              (''comments'', JObject (map (\<lambda>(k, c). (k, dump_CommentData c)) (Lablog.comments data)))]"

definition serialize :: "Lablog \<Rightarrow> json" where
  "serialize s = dump_BlogData \<lparr>posts = posts s, Lablog.comments = Lablog.comments s\<rparr>"

definition get_data_hash :: "Library \<Rightarrow> Lablog \<Rightarrow> string" where
  "get_data_hash lib s = sha256_hexdigest lib (serialize s)"

text \<open>
  The validation of \<open>BlogData(**r)\<close>, from pydantic's documentation: every field is
  required and a key that names no field is ignored; a \<open>str\<close> field accepts a string
  only, \<open>list[str]\<close> an array of strings, \<open>dict[str, M]\<close> an object whose values
  validate as \<open>M\<close>, a model an object; \<open>float\<close> and \<open>bool\<close> fields are validated by the
  library's \<open>validate_float\<close> and \<open>validate_bool\<close>. All failures are reported by one
  \<open>ValidationError\<close>, here \<open>None\<close>. \<open>**r\<close> raises \<open>TypeError\<close> when \<open>r\<close> is not a mapping.
\<close>

definition validate_str :: "json \<Rightarrow> string option" where
  "validate_str j = (case j of JString x \<Rightarrow> Some x | _ \<Rightarrow> None)"

fun all_valid :: "'a option list \<Rightarrow> 'a list option" where
  "all_valid [] = Some []"
| "all_valid (x # xs) =
     (case x of
        None \<Rightarrow> None
      | Some v \<Rightarrow> (case all_valid xs of None \<Rightarrow> None | Some vs \<Rightarrow> Some (v # vs)))"

definition validate_str_list :: "json \<Rightarrow> string list option" where
  "validate_str_list j = (case j of JArray js \<Rightarrow> all_valid (map validate_str js) | _ \<Rightarrow> None)"

text \<open>A required field of kind \<open>validate\<close> under the key \<open>k\<close> of an object.\<close>

definition required_field :: "(string \<times> json) list \<Rightarrow> string \<Rightarrow> (json \<Rightarrow> 'a option) \<Rightarrow> 'a option" where
  "required_field kvs k validate = (case map_of kvs k of None \<Rightarrow> None | Some j \<Rightarrow> validate j)"

definition validate_PostMetadata :: "Library \<Rightarrow> json \<Rightarrow> PostMetadata option" where
  "validate_PostMetadata lib j =
     (case j of
        JObject kvs \<Rightarrow>
          (case (required_field kvs ''title'' validate_str, required_field kvs ''abstract'' validate_str,
                 required_field kvs ''link'' validate_str,
                 required_field kvs ''created_timestamp'' (validate_float lib),
                 required_field kvs ''catagory'' validate_str, required_field kvs ''tags'' validate_str_list,
                 required_field kvs ''comments'' validate_str_list, required_field kvs ''post_id'' validate_str) of
             (Some a, Some b, Some c, Some d, Some e, Some f, Some g, Some h) \<Rightarrow>
               Some \<lparr>title = a, abstract = b, link = c, PostMetadata.created_timestamp = d,
                     catagory = e, tags = f, PostMetadata.comments = g, PostMetadata.post_id = h\<rparr>
           | _ \<Rightarrow> None)
      | _ \<Rightarrow> None)"

definition validate_CommentData :: "Library \<Rightarrow> json \<Rightarrow> CommentData option" where
  "validate_CommentData lib j =
     (case j of
        JObject kvs \<Rightarrow>
          (case (required_field kvs ''name'' validate_str, required_field kvs ''content'' validate_str,
                 required_field kvs ''contact_address'' validate_str,
                 required_field kvs ''created_timestamp'' (validate_float lib),
                 required_field kvs ''ip_address'' validate_str, required_field kvs ''comment_id'' validate_str,
                 required_field kvs ''post_id'' validate_str, required_field kvs ''display'' (validate_bool lib)) of
             (Some a, Some b, Some c, Some d, Some e, Some f, Some g, Some h) \<Rightarrow>
               Some \<lparr>CommentData.name = a, CommentData.content = b,
                     CommentData.contact_address = c, CommentData.created_timestamp = d,
                     ip_address = e, CommentData.comment_id = f, CommentData.post_id = g,
                     display = h\<rparr>
           | _ \<Rightarrow> None)
      | _ \<Rightarrow> None)"

definition validate_dict :: "(json \<Rightarrow> 'a option) \<Rightarrow> json \<Rightarrow> (string \<times> 'a) list option" where
  "validate_dict validate j =
     (case j of
        JObject kvs \<Rightarrow>
          all_valid (map (\<lambda>(k, v). case validate v of None \<Rightarrow> None | Some x \<Rightarrow> Some (k, x)) kvs)
      | _ \<Rightarrow> None)"

definition validate_BlogData :: "Library \<Rightarrow> json \<Rightarrow> error + Lablog" where
  "validate_BlogData lib r =
     (case r of
        JObject kvs \<Rightarrow>
          (case (required_field kvs ''posts'' (validate_dict (validate_PostMetadata lib)),
                 required_field kvs ''comments'' (validate_dict (validate_CommentData lib))) of
             (Some ps, Some cs) \<Rightarrow> Inr \<lparr>posts = ps, Lablog.comments = cs\<rparr>
           | _ \<Rightarrow> Inl ValidationError)
      | _ \<Rightarrow> Inl TypeError)"

definition load :: "Lablog \<Rightarrow> Lablog \<Rightarrow> Lablog" where
  "load s data = s\<lparr>posts := posts data, Lablog.comments := Lablog.comments data\<rparr>"

section \<open>Persistence (database.py)\<close>

text \<open>
  The manager's state: the hash of the last saved version, and the file
  \<open>root_path + "blogdata.json"\<close> as the sequence of documents written to it, oldest first
  (each \<open>serialize_to_file\<close> opens the file with \<open>'wb'\<close> and writes it whole, so the last
  element is what the file holds; the empty sequence is a file that does not exist).
\<close>

record LablogDatabaseManager =
  data_hash :: string
  writes :: "json list"

definition LablogDatabaseManager_init :: LablogDatabaseManager where
  "LablogDatabaseManager_init = \<lparr>data_hash = [], writes = []\<rparr>"

definition serialize_to_file :: "Lablog \<Rightarrow> LablogDatabaseManager \<Rightarrow> LablogDatabaseManager" where
  "serialize_to_file s db = db\<lparr>writes := writes db @ [serialize s]\<rparr>"

text \<open>\<open>load_from_file\<close>: \<open>open\<close> raises \<open>FileNotFoundError\<close> when there is no file.\<close>

definition load_from_file :: "Library \<Rightarrow> LablogDatabaseManager \<Rightarrow> Lablog \<Rightarrow> unit outcome" where
  "load_from_file lib db s =
     (if writes db = [] then (Inl FileNotFoundError, s)
      else (case validate_BlogData lib (last (writes db)) of
              Inl e \<Rightarrow> (Inl e, s)
            | Inr data \<Rightarrow> (Inr (), load s data)))"

definition save_database :: "Library \<Rightarrow> bool \<Rightarrow> Lablog \<Rightarrow> LablogDatabaseManager \<Rightarrow> LablogDatabaseManager" where
  "save_database lib check_hash s db =
     (if check_hash \<and> get_data_hash lib s = data_hash db then db
      else (serialize_to_file s db)\<lparr>data_hash := get_data_hash lib s\<rparr>)"

section \<open>The API server (main.py)\<close>

text \<open>
  \<open>datetime.now()\<close> is an input, counted in microseconds, the resolution of \<open>datetime\<close>;
  a \<open>timedelta\<close> is a number of microseconds. \<open>rate_limit_data\<close> is a
  \<open>defaultdict(list)\<close>: a total function whose default value is the empty list.
\<close>

definition timedelta_minutes :: "int \<Rightarrow> int" where
  "timedelta_minutes m = m * 60 * 1000000"

definition is_rate_limited ::
    "(string \<Rightarrow> int list) \<Rightarrow> string \<Rightarrow> int \<Rightarrow> int \<Rightarrow> int \<Rightarrow> bool \<times> (string \<Rightarrow> int list)" where
  "is_rate_limited data client_host now limit period =
     (let data1 = data(client_host := filter (\<lambda>timestamp. now - timestamp < period) (data client_host))
      in if int (length (data1 client_host)) \<ge> limit then (True, data1)
         else (False, data1(client_host := data1 client_host @ [now])))"

text \<open>\<open>keyword in text\<close> on strings is \<open>sublist keyword text\<close>.\<close>

definition is_spam :: "Library \<Rightarrow> string list \<Rightarrow> string \<Rightarrow> bool" where
  "is_spam lib spam_keywords_arg content_arg =
     list_ex (\<lambda>keyword. sublist keyword (str_lower lib content_arg)) spam_keywords_arg"

record App =
  lablog :: Lablog
  db_mgr :: LablogDatabaseManager
  rate_limit_data :: "string \<Rightarrow> int list"
  spam_keywords :: "string list"

text \<open>\<open>GET /comments/{post_id}\<close>.\<close>

definition get_comments_for_post :: "App \<Rightarrow> string \<Rightarrow> error + DisplayCommentData list" where
  "get_comments_for_post app pid =
     (case map_of (posts (lablog app)) pid of
        None \<Rightarrow> Inl (HTTPException 404)
      | Some p \<Rightarrow> get_comments_for_display (lablog app) (PostMetadata.comments p))"

text \<open>
  \<open>POST /comments/{post_id}\<close>. The rate limiter runs with its default arguments
  (\<open>limit = 5\<close>, \<open>period = timedelta(minutes=30)\<close>). The background task
  \<open>db_mgr.save_database\<close> runs after the response is built; logging is left out.
\<close>

definition add_comment_for_post ::
    "Library \<Rightarrow> App \<Rightarrow> string \<Rightarrow> AddCommentData \<Rightarrow> string \<Rightarrow> int \<Rightarrow> rat \<Rightarrow> string \<Rightarrow>
     (error + AddOrUpdateCommentResult) \<times> App" where
  "add_comment_for_post lib app pid comment_data client_host datetime_now now uuid =
     (case is_rate_limited (rate_limit_data app) client_host datetime_now 5 (timedelta_minutes 30) of
        (limited, data') \<Rightarrow>
          (let app1 = app\<lparr>rate_limit_data := data'\<rparr> in
           if limited then (Inl (HTTPException 429), app1)
           else if is_spam lib (spam_keywords app1) (AddCommentData.content comment_data)
             then (Inl (HTTPException 400), app1)
           else
             (case add_comment (lablog app1) uuid now
                     (AddCommentData.name comment_data)
                     (AddCommentData.content comment_data)
                     (AddCommentData.contact_address comment_data)
                     pid None (Some client_host) False of
                (Inl e, s') \<Rightarrow> (Inl e, app1\<lparr>lablog := s'\<rparr>)
              | (Inr cid, s') \<Rightarrow>
                  (Inr \<lparr>result = ''success'', AddOrUpdateCommentResult.comment_id = cid\<rparr>,
                   app1\<lparr>lablog := s', db_mgr := save_database lib False s' (db_mgr app1)\<rparr>))))"

text \<open>A run of checks for one host at the given times, each with the default arguments.\<close>

fun rate_checks :: "(string \<Rightarrow> int list) \<Rightarrow> string \<Rightarrow> int list \<Rightarrow> bool list" where
  "rate_checks data client_host [] = []"
| "rate_checks data client_host (t # ts) =
     (case is_rate_limited data client_host t 5 (timedelta_minutes 30) of
        (limited, data') \<Rightarrow> limited # rate_checks data' client_host ts)"


section \<open>The properties, as the spec words them\<close>

text \<open>
  Referential integrity, from the spec's data model: every id in a post's \<open>comments\<close>
  list is a key of the comment map, and that comment's \<open>post_id\<close> is the post's id.
\<close>

definition referential_integrity :: "Lablog \<Rightarrow> bool" where
  "referential_integrity s =
     list_all
       (\<lambda>(k, p). list_all
          (\<lambda>cid. case map_of (Lablog.comments s) cid of
                   None \<Rightarrow> False
                 | Some c \<Rightarrow> CommentData.post_id c = PostMetadata.post_id p)
          (PostMetadata.comments p))
       (posts s)"

text \<open>
  What the store's own operations keep besides: the keys of \<open>posts\<close> are distinct (it is
  a dictionary), every post is stored under its own \<open>post_id\<close>, and no post lists an
  id twice.
\<close>

definition store_wf :: "Lablog \<Rightarrow> bool" where
  "store_wf s =
     (distinct (map fst (posts s)) \<and>
      list_all (\<lambda>(k, p). PostMetadata.post_id p = k \<and> distinct (PostMetadata.comments p)) (posts s))"

definition store_invariant :: "Lablog \<Rightarrow> bool" where
  "store_invariant s = (store_wf s \<and> referential_integrity s)"

text \<open>
  The spec's reading of a \<open>get_posts\<close> query: the conjunction of every supplied
  criterion, an omitted one (\<open>None\<close>) imposing nothing. The bounds are exclusive.
\<close>

definition criteria_conjunction ::
    "string option \<Rightarrow> string list option \<Rightarrow> string option \<Rightarrow> string option \<Rightarrow>
     string list option \<Rightarrow> pyfloat option \<Rightarrow> pyfloat option \<Rightarrow> PostMetadata \<Rightarrow> bool" where
  "criteria_conjunction pid_arg pid_list_arg catagory_arg tag_arg tags_arg timestamp_start timestamp_stop data =
     ((case pid_arg of None \<Rightarrow> True | Some v \<Rightarrow> PostMetadata.post_id data = v) \<and>
      (case pid_list_arg of None \<Rightarrow> True | Some l \<Rightarrow> PostMetadata.post_id data \<in> set l) \<and>
      (case catagory_arg of None \<Rightarrow> True | Some v \<Rightarrow> catagory data = v) \<and>
      (case tag_arg of None \<Rightarrow> True | Some v \<Rightarrow> v \<in> set (tags data)) \<and>
      (case tags_arg of None \<Rightarrow> True | Some l \<Rightarrow> set l \<subseteq> set (tags data)) \<and>
      (case timestamp_start of None \<Rightarrow> True
       | Some t \<Rightarrow> float_lt t (PostMetadata.created_timestamp data)) \<and>
      (case timestamp_stop of None \<Rightarrow> True
       | Some t \<Rightarrow> float_lt (PostMetadata.created_timestamp data) t))"

text \<open>An empty list read as an omitted argument.\<close>

definition empty_as_omitted :: "'a list option \<Rightarrow> 'a list option" where
  "empty_as_omitted l = (case l of Some [] \<Rightarrow> None | _ \<Rightarrow> l)"

text \<open>
  "Sorted by \<open>created_timestamp\<close> descending": every post is at least as new as each
  post after it, \<open>float_ge\<close> being Python's \<open>>=\<close>.
\<close>

definition float_ge :: "pyfloat \<Rightarrow> pyfloat \<Rightarrow> bool" where
  "float_ge x y = (x \<noteq> NaN \<and> y \<noteq> NaN \<and> \<not> float_lt x y)"

definition newest_first :: "PostMetadata list \<Rightarrow> bool" where
  "newest_first ps =
     sorted_wrt (\<lambda>x y. float_ge (PostMetadata.created_timestamp x) (PostMetadata.created_timestamp y)) ps"

text \<open>No timestamp of the store is an infinity or a NaN.\<close>

definition is_finite :: "pyfloat \<Rightarrow> bool" where
  "is_finite x = (case x of Finite r \<Rightarrow> True | _ \<Rightarrow> False)"

definition timestamps_finite :: "Lablog \<Rightarrow> bool" where
  "timestamps_finite s =
     (list_all (\<lambda>(k, p). is_finite (PostMetadata.created_timestamp p)) (posts s) \<and>
      list_all (\<lambda>(k, c). is_finite (CommentData.created_timestamp c)) (Lablog.comments s))"

text \<open>
  The rate limiter as the spec words it: it discards the timestamps \<^emph>\<open>older than\<close> the
  period, and so keeps one that is exactly one period old.
\<close>

definition is_rate_limited_as_worded ::
    "(string \<Rightarrow> int list) \<Rightarrow> string \<Rightarrow> int \<Rightarrow> int \<Rightarrow> int \<Rightarrow> bool \<times> (string \<Rightarrow> int list)" where
  "is_rate_limited_as_worded data client_host now limit period =
     (let data1 = data(client_host := filter (\<lambda>timestamp. \<not> now - timestamp > period) (data client_host))
      in if int (length (data1 client_host)) \<ge> limit then (True, data1)
         else (False, data1(client_host := data1 client_host @ [now])))"

section \<open>Example states\<close>

definition ex_post :: "string \<Rightarrow> rat \<Rightarrow> string list \<Rightarrow> PostMetadata" where
  "ex_post pid ts cs = \<lparr>title = ''T'', abstract = ''A'', link = ''L'',
     PostMetadata.created_timestamp = Finite ts, catagory = ''tech'', tags = [''x''],
     PostMetadata.comments = cs, PostMetadata.post_id = pid\<rparr>"

definition ex_comment :: "string \<Rightarrow> string \<Rightarrow> rat \<Rightarrow> bool \<Rightarrow> CommentData" where
  "ex_comment cid pid ts d = \<lparr>CommentData.name = ''N'', CommentData.content = ''C'',
     CommentData.contact_address = ''n@example.org'', CommentData.created_timestamp = Finite ts,
     ip_address = ''10.0.0.1'', CommentData.comment_id = cid, CommentData.post_id = pid, display = d\<rparr>"

text \<open>Three posts created with the timestamps 100, 300, 200 in this order; one comment on the first.\<close>

definition ex_store :: Lablog where
  "ex_store = \<lparr>posts = [(''p1'', ex_post ''p1'' 100 [''c1'']), (''p2'', ex_post ''p2'' 300 []),
                        (''p3'', ex_post ''p3'' 200 [])],
               Lablog.comments = [(''c1'', ex_comment ''c1'' ''p1'' 50 True)]\<rparr>"

text \<open>\<open>ex_store\<close> after a comment update that names another post, and one that names no post.\<close>

definition ex_repointed :: Lablog where
  "ex_repointed = ex_store\<lparr>Lablog.comments := [(''c1'', ex_comment ''c1'' ''p2'' 50 True)]\<rparr>"

definition ex_dangling :: Lablog where
  "ex_dangling = ex_store\<lparr>Lablog.comments := [(''c1'', ex_comment ''c1'' ''p9'' 50 True)]\<rparr>"

text \<open>
  \<open>ex_store\<close> after \<open>modify_comment('c1', created_timestamp=inf)\<close>, and after a second
  update to \<open>nan\<close>; three posts with the timestamps 1, NaN, 3 in this order.
\<close>

definition ex_inf_store :: Lablog where
  "ex_inf_store = ex_store\<lparr>Lablog.comments :=
     [(''c1'', (ex_comment ''c1'' ''p1'' 50 True)\<lparr>CommentData.created_timestamp := PosInf\<rparr>)]\<rparr>"


definition ex_nan_posts :: Lablog where
  "ex_nan_posts = \<lparr>posts = [(''p1'', ex_post ''p1'' 1 []),
                            (''p2'', (ex_post ''p2'' 2 [])\<lparr>PostMetadata.created_timestamp := NaN\<rparr>),
                            (''p3'', ex_post ''p3'' 3 [])],
                   Lablog.comments = []\<rparr>"

text \<open>
  Stand-ins for the library functions, used in the examples only: text that is
  already lower-case; the insertion sort \<open>sort_lt\<close> (on the keys \<open>3, NaN, 1\<close> it returns
  the list as it is, as \<open>list.sort\<close> does, which finds it to be one run); a digest
  without collisions; validators that accept the documented values and no other.
\<close>

definition ex_lib :: Library where
  "ex_lib = \<lparr>str_lower = (\<lambda>text. text),
             list_sort = (\<lambda>key reverse xs. if reverse then rev (sort_lt key (rev xs)) else sort_lt key xs),
             sha256_hexdigest = (\<lambda>document. replicate (Suc (to_nat document)) CHR ''a''),
             validate_float = (\<lambda>j. case j of JNumber r \<Rightarrow> Some (Finite r) | _ \<Rightarrow> None),
             validate_bool = (\<lambda>j. case j of JBool b \<Rightarrow> Some b | _ \<Rightarrow> None)\<rparr>"

definition ex_app :: App where
  "ex_app = \<lparr>lablog = ex_store, db_mgr = LablogDatabaseManager_init,
             rate_limit_data = (\<lambda>client_host. []), spam_keywords = [''casino'']\<rparr>"

text \<open>The application with a displayed comment of \<open>p1\<close> whose timestamp is infinite.\<close>

definition ex_app_inf :: App where
  "ex_app_inf = ex_app\<lparr>lablog := ex_inf_store\<rparr>"

definition ex_comment_data :: AddCommentData where
  "ex_comment_data = \<lparr>AddCommentData.name = ''ann'', AddCommentData.content = ''hello'',
                      AddCommentData.contact_address = ''ann@example.org''\<rparr>"

section \<open>Association lists as dictionaries\<close>

lemma update_keys_if:
  "map fst (AList.update k w al) = (if map_of al k = None then map fst al @ [k] else map fst al)"
  by (induction al) auto

lemma update_keys_present:
  "map_of al k = Some v \<Longrightarrow> map fst (AList.update k w al) = map fst al"
  by (simp add: update_keys_if)

section \<open>Updates of posts and comments\<close>

lemma set_post_attr_absent:
  "map_of (posts s) pid = None \<Longrightarrow> set_post_attr pid f s = (Inl KeyError, s)"
  by (simp add: set_post_attr_def)

text \<open>
  C4 (amended). \<open>modify_post\<close> has no existence check of its own: a missing \<open>post_id\<close>
  surfaces as the \<open>KeyError\<close> (the spec's \<open>NotFound\<close>) of the first assignment that is
  executed. So for a \<open>post_id\<close> that is not a key of the posts map the call raises
  \<open>KeyError\<close> exactly when at least one optional field is supplied, and returns normally
  when none is; the store is unchanged in both cases.
\<close>

theorem modify_post_absent:
  assumes "map_of (posts s) pid = None"
  shows "modify_post s pid t a l ts c tg =
         (if t = None \<and> a = None \<and> l = None \<and> ts = None \<and> c = None \<and> tg = None
          then (Inr (), s) else (Inl KeyError, s))"
  using assms
  by (simp add: modify_post_def if_not_None_def set_post_attr_absent split: option.splits)

theorem modify_post_absent_witness:
  "map_of (posts Lablog_init) ''p1'' = None \<and>
   modify_post Lablog_init ''p1'' (Some ''t'') None None None None (Some []) = (Inl KeyError, Lablog_init) \<and>
   modify_post Lablog_init ''p1'' None None None None None None = (Inr (), Lablog_init)"
proof -
  have h: "map_of (posts Lablog_init) ''p1'' = None"
    by (simp add: Lablog_init_def)
  show ?thesis
    using h modify_post_absent [OF h, of "Some ''t''" None None None None "Some []"]
      modify_post_absent [OF h, of None None None None None None]
    by simp
qed

text \<open>
  C4 as stated fails: with every optional field omitted, \<open>modify_post\<close> on an absent
  \<open>post_id\<close> executes no assignment and returns without an error.
\<close>

theorem modify_post_absent_no_fields_returns:
  "map_of (posts ex_store) ''p9'' = None \<and>
   modify_post ex_store ''p9'' None None None None None None = (Inr (), ex_store)"
  by (simp add: modify_post_def if_not_None_def ex_store_def)

text \<open>
  C2. \<open>add_comment\<close> with a \<open>post_id\<close> that is not a key of the posts map raises
  \<open>ValueError\<close> (the spec's \<open>InvalidInput\<close>) and leaves the store as it was. With a
  \<open>post_id\<close> that is a key, it returns the generated id, stores the new comment under
  that id (as a new last key when the id is not yet one), leaves every other comment as
  it was, and appends the id to the owning post's \<open>comments\<close> list, every other post
  and the order of the posts unchanged.
\<close>

theorem add_comment_spec:
  "(map_of (posts s) pid = None \<longrightarrow>
      add_comment s uuid now n c a pid ts ip d = (Inl ValueError, s)) \<and>
   (\<forall>p. map_of (posts s) pid = Some p \<longrightarrow>
      (\<exists>s'. add_comment s uuid now n c a pid ts ip d = (Inr uuid, s') \<and>
         map_of (Lablog.comments s') =
           (map_of (Lablog.comments s))(uuid \<mapsto>
              \<lparr>CommentData.name = n, CommentData.content = c, CommentData.contact_address = a,
               CommentData.created_timestamp = (case ts of Some t \<Rightarrow> t | None \<Rightarrow> Finite now),
               ip_address = (case ip of Some x \<Rightarrow> x | None \<Rightarrow> ''No IP info''),
               CommentData.comment_id = uuid, CommentData.post_id = pid, display = d\<rparr>) \<and>
         map fst (Lablog.comments s') =
           (if map_of (Lablog.comments s) uuid = None then map fst (Lablog.comments s) @ [uuid]
            else map fst (Lablog.comments s)) \<and>
         map_of (posts s') =
           (map_of (posts s))(pid \<mapsto> p\<lparr>PostMetadata.comments := PostMetadata.comments p @ [uuid]\<rparr>) \<and>
         map fst (posts s') = map fst (posts s)))"
  by (simp add: add_comment_def Let_def AList.update_conv' update_keys_if update_keys_present)

theorem add_comment_spec_witness:
  "add_comment ex_store ''c2'' 70 ''N'' ''C'' ''m'' ''p9'' None None True = (Inl ValueError, ex_store) \<and>
   fst (add_comment ex_store ''c2'' 70 ''N'' ''C'' ''m'' ''p2'' None None True) = Inr ''c2'' \<and>
   map fst (Lablog.comments (snd (add_comment ex_store ''c2'' 70 ''N'' ''C'' ''m'' ''p2'' None None True)))
     = [''c1'', ''c2''] \<and>
   map_of (posts (snd (add_comment ex_store ''c2'' 70 ''N'' ''C'' ''m'' ''p2'' None None True))) ''p2''
     = Some (ex_post ''p2'' 300 [''c2''])"
proof -
  have a: "map_of (posts ex_store) ''p9'' = None"
    and b: "map_of (posts ex_store) ''p2'' = Some (ex_post ''p2'' 300 [])"
    and k: "map fst (Lablog.comments ex_store) = [''c1'']"
      "map_of (Lablog.comments ex_store) ''c2'' = None"
    by (simp_all add: ex_store_def)
  have e: "(ex_post ''p2'' 300 [])\<lparr>PostMetadata.comments :=
              PostMetadata.comments (ex_post ''p2'' 300 []) @ [''c2'']\<rparr> = ex_post ''p2'' 300 [''c2'']"
    by (simp add: ex_post_def)
  from add_comment_spec [of ex_store "''p9''" "''c2''" 70 "''N''" "''C''" "''m''" None None True] a
  have 1: "add_comment ex_store ''c2'' 70 ''N'' ''C'' ''m'' ''p9'' None None True = (Inl ValueError, ex_store)"
    by blast
  from add_comment_spec [of ex_store "''p2''" "''c2''" 70 "''N''" "''C''" "''m''" None None True] b
  obtain s' where 2: "add_comment ex_store ''c2'' 70 ''N'' ''C'' ''m'' ''p2'' None None True = (Inr ''c2'', s')"
    and 3: "map fst (Lablog.comments s') =
           (if map_of (Lablog.comments ex_store) ''c2'' = None
            then map fst (Lablog.comments ex_store) @ [''c2'']
            else map fst (Lablog.comments ex_store))"
    and 4: "map_of (posts s') =
           (map_of (posts ex_store))(''p2'' \<mapsto> (ex_post ''p2'' 300 [])\<lparr>PostMetadata.comments :=
              PostMetadata.comments (ex_post ''p2'' 300 []) @ [''c2'']\<rparr>)"
    by blast
  show ?thesis
    using 1 2 3 4 by (simp add: k e)
qed

section \<open>Deleting a comment\<close>

text \<open>
  C5 (amended). \<open>delete_comment\<close> on an id that is not a key of the comments map returns
  with the store exactly as it was. On an id that is a key, and whose comment names a
  post that is a key of the posts map and lists the id, it returns normally, removes
  the id from the comments map (the other comments and their order unchanged) and
  removes the first occurrence of the id from that post's list (so the id is gone from
  a list without duplicates), the other posts and the order of the posts unchanged.
\<close>

theorem delete_comment_spec:
  "(map_of (Lablog.comments s) cid = None \<longrightarrow> delete_comment s cid = (Inr (), s)) \<and>
   (\<forall>c p. map_of (Lablog.comments s) cid = Some c \<and>
          map_of (posts s) (CommentData.post_id c) = Some p \<and>
          cid \<in> set (PostMetadata.comments p) \<longrightarrow>
      (\<exists>s'. delete_comment s cid = (Inr (), s') \<and>
         map_of (Lablog.comments s') = (map_of (Lablog.comments s))(cid := None) \<and>
         map fst (Lablog.comments s') = removeAll cid (map fst (Lablog.comments s)) \<and>
         map_of (posts s') =
           (map_of (posts s))(CommentData.post_id c \<mapsto>
              p\<lparr>PostMetadata.comments := remove1 cid (PostMetadata.comments p)\<rparr>) \<and>
         map fst (posts s') = map fst (posts s) \<and>
         (distinct (PostMetadata.comments p) \<longrightarrow>
            cid \<notin> set (remove1 cid (PostMetadata.comments p)))))"
  by (auto simp add: delete_comment_def AList.update_conv' update_keys_present AList.delete_conv'
      AList.delete_keys)

theorem delete_comment_spec_witness:
  "delete_comment ex_store ''c7'' = (Inr (), ex_store) \<and>
   fst (delete_comment ex_store ''c1'') = Inr () \<and>
   map_of (Lablog.comments (snd (delete_comment ex_store ''c1''))) ''c1'' = None \<and>
   map_of (posts (snd (delete_comment ex_store ''c1''))) ''p1'' = Some (ex_post ''p1'' 100 []) \<and>
   map_of (posts (snd (delete_comment ex_store ''c1''))) ''p2'' = Some (ex_post ''p2'' 300 [])"
proof -
  have a: "map_of (Lablog.comments ex_store) ''c7'' = None"
    and b: "map_of (Lablog.comments ex_store) ''c1'' = Some (ex_comment ''c1'' ''p1'' 50 True)"
    and c: "map_of (posts ex_store) (CommentData.post_id (ex_comment ''c1'' ''p1'' 50 True))
              = Some (ex_post ''p1'' 100 [''c1''])"
    and d: "''c1'' \<in> set (PostMetadata.comments (ex_post ''p1'' 100 [''c1'']))"
    and e: "map_of (posts ex_store) ''p2'' = Some (ex_post ''p2'' 300 [])"
    by (simp_all add: ex_store_def ex_comment_def ex_post_def)
  have f: "(ex_post ''p1'' 100 [''c1''])\<lparr>PostMetadata.comments :=
             remove1 ''c1'' (PostMetadata.comments (ex_post ''p1'' 100 [''c1'']))\<rparr> = ex_post ''p1'' 100 []"
    and g: "CommentData.post_id (ex_comment ''c1'' ''p1'' 50 True) = ''p1''"
    by (simp_all add: ex_post_def ex_comment_def)
  from delete_comment_spec [of ex_store "''c7''"] a
  have 1: "delete_comment ex_store ''c7'' = (Inr (), ex_store)"
    by blast
  from delete_comment_spec [of ex_store "''c1''"] b c d
  obtain s' where 2: "delete_comment ex_store ''c1'' = (Inr (), s')"
    and 3: "map_of (Lablog.comments s') = (map_of (Lablog.comments ex_store))(''c1'' := None)"
    and 4: "map_of (posts s') =
           (map_of (posts ex_store))(CommentData.post_id (ex_comment ''c1'' ''p1'' 50 True) \<mapsto>
              (ex_post ''p1'' 100 [''c1''])\<lparr>PostMetadata.comments :=
                 remove1 ''c1'' (PostMetadata.comments (ex_post ''p1'' 100 [''c1'']))\<rparr>)"
    by blast
  show ?thesis
    using 1 2 3 4 e by (simp add: f g)
qed

text \<open>
  C5 as stated fails: in \<open>ex_dangling\<close> the id \<open>c1\<close> is a key of the comments map, and
  \<open>delete_comment\<close> raises \<open>KeyError\<close> and removes nothing.
\<close>

theorem delete_comment_dangling_keeps_comment:
  "map_of (Lablog.comments ex_dangling) ''c1'' = Some (ex_comment ''c1'' ''p9'' 50 True) \<and>
   delete_comment ex_dangling ''c1'' = (Inl KeyError, ex_dangling)"
  by (simp add: delete_comment_def ex_dangling_def ex_store_def ex_comment_def)

text \<open>
  C10. For a \<open>comment_id\<close> that is a key of the comments map, \<open>delete_comment\<close> returns
  normally if and only if the comment's \<open>post_id\<close> is a key of the posts map and that
  post's list holds the id. With a dangling \<open>post_id\<close> it raises \<open>KeyError\<close>, with a post
  that does not list the id it raises \<open>ValueError\<close>, and whenever it raises the store,
  the comment included, is left as it was.
\<close>

theorem delete_comment_total_only_if:
  "map_of (Lablog.comments s) cid = Some c \<Longrightarrow>
     ((fst (delete_comment s cid) = Inr ()) =
        (\<exists>p. map_of (posts s) (CommentData.post_id c) = Some p \<and> cid \<in> set (PostMetadata.comments p))) \<and>
     (map_of (posts s) (CommentData.post_id c) = None \<longrightarrow> delete_comment s cid = (Inl KeyError, s)) \<and>
     (\<forall>p. map_of (posts s) (CommentData.post_id c) = Some p \<and> cid \<notin> set (PostMetadata.comments p)
            \<longrightarrow> delete_comment s cid = (Inl ValueError, s)) \<and>
     (fst (delete_comment s cid) \<noteq> Inr () \<longrightarrow> snd (delete_comment s cid) = s)"
  by (auto simp add: delete_comment_def split: option.splits)

theorem delete_comment_total_only_if_witness:
  "modify_comment ex_store ''c1'' None None None None None (Some ''p9'') None = (Inr (), ex_dangling) \<and>
   delete_comment ex_dangling ''c1'' = (Inl KeyError, ex_dangling) \<and>
   delete_comment ex_repointed ''c1'' = (Inl ValueError, ex_repointed) \<and>
   fst (delete_comment ex_store ''c1'') = Inr ()"
proof -
  have a: "map_of (Lablog.comments ex_dangling) ''c1'' = Some (ex_comment ''c1'' ''p9'' 50 True)"
    and b: "map_of (posts ex_dangling) (CommentData.post_id (ex_comment ''c1'' ''p9'' 50 True)) = None"
    and c: "map_of (Lablog.comments ex_repointed) ''c1'' = Some (ex_comment ''c1'' ''p2'' 50 True)"
    and d: "map_of (posts ex_repointed) (CommentData.post_id (ex_comment ''c1'' ''p2'' 50 True))
              = Some (ex_post ''p2'' 300 [])"
    and e: "''c1'' \<notin> set (PostMetadata.comments (ex_post ''p2'' 300 []))"
    and f: "map_of (Lablog.comments ex_store) ''c1'' = Some (ex_comment ''c1'' ''p1'' 50 True)"
    and g: "map_of (posts ex_store) (CommentData.post_id (ex_comment ''c1'' ''p1'' 50 True))
              = Some (ex_post ''p1'' 100 [''c1''])"
    and h: "''c1'' \<in> set (PostMetadata.comments (ex_post ''p1'' 100 [''c1'']))"
    by (simp_all add: ex_dangling_def ex_repointed_def ex_store_def ex_comment_def ex_post_def)
  have m: "modify_comment ex_store ''c1'' None None None None None (Some ''p9'') None = (Inr (), ex_dangling)"
    by (simp add: modify_comment_def if_not_None_def set_comment_attr_def ex_dangling_def
        ex_store_def ex_comment_def)
  show ?thesis
    using delete_comment_total_only_if [OF a] delete_comment_total_only_if [OF c]
      delete_comment_total_only_if [OF f] b d e g h m
    by blast
qed

section \<open>Querying posts\<close>

lemma apply_filters_list_all: "apply_filters pf data = list_all (\<lambda>f. f data) pf"
  by (induction pf) auto

lemma apply_filters_add_filter:
  "apply_filters (add_filter pf f) data = (apply_filters pf data \<and> f data)"
  by (auto simp add: apply_filters_list_all add_filter_def)

lemma apply_filters_add_if_not_None:
  "apply_filters (add_if_not_None x gen pf) data =
     (apply_filters pf data \<and> (case x of None \<Rightarrow> True | Some v \<Rightarrow> gen v data))"
  by (cases x) (simp_all add: add_if_not_None_def apply_filters_add_filter)

lemma apply_filters_add_if_not_empty:
  "apply_filters (add_if_not_empty x gen pf) data =
     (apply_filters pf data \<and> (case empty_as_omitted x of None \<Rightarrow> True | Some l \<Rightarrow> gen l data))"
  by (cases x)
    (auto simp add: add_if_not_empty_def apply_filters_add_filter empty_as_omitted_def
      split: list.splits)

lemma tags_loop_subset: "tags_loop l data = (set l \<subseteq> set (tags data))"
  by (induction l) auto

lemma tags_criterion_empty:
  "(case empty_as_omitted x of None \<Rightarrow> True | Some l \<Rightarrow> generate_tags_filter l data) =
     (case x of None \<Rightarrow> True | Some l \<Rightarrow> set l \<subseteq> set (tags data))"
  by (cases x)
    (auto simp add: empty_as_omitted_def generate_tags_filter_def tags_loop_subset
      split: list.splits)

lemma posts_loop_filter: "posts_loop pf acc xs = acc @ filter (apply_filters pf) xs"
  by (induction xs arbitrary: acc) auto

lemmas generate_defs =
  generate_post_id_filter_def generate_post_id_list_filter_def generate_catagory_filter_def
  generate_tag_filter_def generate_tags_filter_def generate_after_timestamp_filter_def
  generate_before_timestamp_filter_def

lemma get_posts_filters:
  "get_posts lib s a b c d e f g =
     list_sort lib PostMetadata.created_timestamp True
       (filter (criteria_conjunction a (empty_as_omitted b) c d e f g) (map snd (posts s)))"
  unfolding get_posts_def Let_def posts_loop_filter append_Nil
  apply (rule arg_cong [where f = "list_sort lib PostMetadata.created_timestamp True"])
  apply (rule filter_cong [OF refl])
  apply (simp only: apply_filters_add_if_not_None apply_filters_add_if_not_empty
      tags_criterion_empty criteria_conjunction_def PostFilter_init_def apply_filters.simps)
  apply (simp add: generate_defs float_gt_def cong: option.case_cong)
  done

subsection \<open>The insertion sort, where no key is a NaN\<close>

lemma mset_insort_lt: "mset (insort_lt key x ys) = add_mset x (mset ys)"
  by (induction ys) simp_all

lemma mset_sort_lt: "mset (sort_lt key xs) = mset xs"
  by (induction xs) (simp_all add: sort_lt_def mset_insort_lt)

lemma set_insort_lt: "set (insort_lt key x ys) = insert x (set ys)"
  by (induction ys) auto

lemma float_lt_chain:
  "x \<noteq> NaN \<Longrightarrow> y \<noteq> NaN \<Longrightarrow> z \<noteq> NaN \<Longrightarrow> \<not> float_lt y x \<Longrightarrow> \<not> float_lt z y \<Longrightarrow> \<not> float_lt z x"
  by (cases x; cases y; cases z) auto

lemma float_lt_asym: "float_lt x y \<Longrightarrow> \<not> float_lt y x"
  by (cases x; cases y) auto

lemma sorted_insort_lt:
  assumes "key x \<noteq> NaN" and "\<forall>y \<in> set ys. key y \<noteq> NaN"
    and "sorted_wrt (\<lambda>a b. \<not> float_lt (key b) (key a)) ys"
  shows "sorted_wrt (\<lambda>a b. \<not> float_lt (key b) (key a)) (insort_lt key x ys)"
  using assms
proof (induction ys)
  case Nil
  then show ?case by simp
next
  case (Cons y ys)
  show ?case
  proof (cases "float_lt (key y) (key x)")
    case True
    with Cons show ?thesis
      by (auto simp add: set_insort_lt dest: float_lt_asym)
  next
    case False
    have "\<not> float_lt (key z) (key x)" if "z \<in> set ys" for z
      using that False Cons.prems float_lt_chain [of "key x" "key y" "key z"] by auto
    with False Cons.prems show ?thesis
      by simp
  qed
qed

lemma sorted_sort_lt:
  assumes "\<forall>x \<in> set xs. key x \<noteq> NaN"
  shows "sorted_wrt (\<lambda>a b. \<not> float_lt (key b) (key a)) (sort_lt key xs)"
  using assms
proof (induction xs)
  case Nil
  then show ?case by (simp add: sort_lt_def)
next
  case (Cons x xs)
  then have "sorted_wrt (\<lambda>a b. \<not> float_lt (key b) (key a)) (sort_lt key xs)"
    by simp
  moreover have "\<forall>y \<in> set (sort_lt key xs). key y \<noteq> NaN"
    using Cons.prems mset_sort_lt [of key xs] by (metis list.set_intros(2) set_mset_mset)
  ultimately have "sorted_wrt (\<lambda>a b. \<not> float_lt (key b) (key a)) (insort_lt key x (sort_lt key xs))"
    using Cons.prems by (intro sorted_insort_lt) simp_all
  then show ?case by (simp add: sort_lt_def)
qed

lemma newest_first_rev_sort_lt:
  assumes "list_all (\<lambda>p. PostMetadata.created_timestamp p \<noteq> NaN) xs"
  shows "newest_first (rev (sort_lt PostMetadata.created_timestamp (rev xs)))"
proof -
  let ?ys = "sort_lt PostMetadata.created_timestamp (rev xs)"
  from assms have nn: "\<forall>x \<in> set (rev xs). PostMetadata.created_timestamp x \<noteq> NaN"
    by (simp add: list_all_iff)
  then have "sorted_wrt (\<lambda>a b. \<not> float_lt (PostMetadata.created_timestamp b) (PostMetadata.created_timestamp a)) ?ys"
    by (rule sorted_sort_lt)
  moreover have "\<forall>y \<in> set ?ys. PostMetadata.created_timestamp y \<noteq> NaN"
    using nn mset_sort_lt [of PostMetadata.created_timestamp "rev xs"] by (metis set_mset_mset)
  ultimately have "sorted_wrt (\<lambda>a b. float_ge (PostMetadata.created_timestamp b) (PostMetadata.created_timestamp a)) ?ys"
    by (auto simp add: float_ge_def elim!: sorted_wrt_mono_rel [rotated])
  then show ?thesis
    by (simp add: newest_first_def sorted_wrt_rev)
qed

lemma list_sort_contract_ex_lib: "list_sort_contract ex_lib"
  by (simp add: list_sort_contract_def ex_lib_def mset_sort_lt)

text \<open>
  C3 (amended). Let \<open>list.sort\<close> behave as documented. \<open>get_posts\<close> returns exactly the
  stored posts that satisfy the conjunction of the supplied criteria, where an empty
  \<open>post_id_list\<close> counts as omitted (as an empty \<open>tags\<close> list does). When no returned
  post has a NaN timestamp the result is ordered by \<open>created_timestamp\<close> descending,
  posts with equal timestamps in the order of the dictionary. With no criteria the
  result holds every stored post.
\<close>

theorem get_posts_spec:
  assumes "list_sort_contract lib"
  shows "mset (get_posts lib s a b c d e f g) =
     filter_mset (criteria_conjunction a (empty_as_omitted b) c d e f g) (mset (map snd (posts s))) \<and>
   (list_all (\<lambda>p. PostMetadata.created_timestamp p \<noteq> NaN)
      (filter (criteria_conjunction a (empty_as_omitted b) c d e f g) (map snd (posts s))) \<longrightarrow>
    newest_first (get_posts lib s a b c d e f g) \<and>
    get_posts lib s a b c d e f g =
      rev (sort_lt PostMetadata.created_timestamp
        (rev (filter (criteria_conjunction a (empty_as_omitted b) c d e f g) (map snd (posts s)))))) \<and>
   mset (get_posts lib s None None None None None None None) = mset (map snd (posts s))"
proof -
  have all: "criteria_conjunction None (empty_as_omitted None) None None None None None = (\<lambda>d. True)"
    by (simp add: criteria_conjunction_def empty_as_omitted_def fun_eq_iff)
  from assms have perm: "mset (list_sort lib key reverse xs) = mset xs" for key reverse xs
    by (simp add: list_sort_contract_def)
  from assms have det: "list_sort lib key True xs = rev (sort_lt key (rev xs))"
    if "list_all (\<lambda>x. key x \<noteq> NaN) xs" for key xs
    using that by (simp add: list_sort_contract_def)
  show ?thesis
    by (simp add: get_posts_filters perm det newest_first_rev_sort_lt all)
qed

theorem get_posts_spec_witness:
  "list_sort_contract ex_lib \<and>
   get_posts ex_lib ex_store None None None None None None None =
     [ex_post ''p2'' 300 [], ex_post ''p3'' 200 [], ex_post ''p1'' 100 [''c1'']] \<and>
   get_posts ex_lib ex_store None None (Some ''tech'') (Some ''x'') None (Some (Finite 100)) (Some PosInf) =
     [ex_post ''p2'' 300 [], ex_post ''p3'' 200 []]"
  using get_posts_spec [OF list_sort_contract_ex_lib, of ex_store None None None None None None None]
    get_posts_spec [OF list_sort_contract_ex_lib,
      of ex_store None None "Some ''tech''" "Some ''x''" None "Some (Finite 100)" "Some PosInf"]
    list_sort_contract_ex_lib
  by (simp add: criteria_conjunction_def empty_as_omitted_def ex_store_def
      sort_lt_def ex_post_def)

text \<open>
  C3 as stated fails twice. \<open>post_id_list = []\<close> is supplied and no post satisfies the
  criterion "\<open>post_id\<close> is in the list", yet \<open>get_posts\<close> returns every post. And for the
  posts with the timestamps 1, NaN, 3 the sort leaves the list as it is: the result is
  not in descending order, the oldest post coming first.
\<close>

theorem get_posts_empty_id_list_or_nan:
  "get_posts ex_lib ex_store None (Some []) None None None None None =
     [ex_post ''p2'' 300 [], ex_post ''p3'' 200 [], ex_post ''p1'' 100 [''c1'']] \<and>
   \<not> criteria_conjunction None (Some []) None None None None None (ex_post ''p2'' 300 []) \<and>
   map PostMetadata.created_timestamp (get_posts ex_lib ex_nan_posts None None None None None None None) =
     [Finite 1, NaN, Finite 3] \<and>
   \<not> newest_first (get_posts ex_lib ex_nan_posts None None None None None None None)"
  by (simp add: get_posts_filters criteria_conjunction_def empty_as_omitted_def ex_store_def
      ex_nan_posts_def ex_lib_def sort_lt_def ex_post_def newest_first_def float_ge_def)

section \<open>Public visibility of comments\<close>

lemma display_loop_cong:
  assumes "\<forall>cid \<in> set ids. map_of (Lablog.comments s') cid = map_of (Lablog.comments s) cid"
  shows "display_loop s' acc ids = display_loop s acc ids"
  using assms by (induction ids arbitrary: acc) (simp_all split: option.splits sum.splits)

lemma display_loop_append:
  "display_loop s acc (xs @ ys) =
     (case display_loop s acc xs of Inl e \<Rightarrow> Inl e | Inr acc' \<Rightarrow> display_loop s acc' ys)"
  by (induction xs arbitrary: acc) (simp_all split: option.splits sum.splits)

lemma add_comment_for_post_success:
  assumes ok: "add_comment_for_post lib app pid data host dt now uuid = (Inr res, app')"
    and post: "map_of (posts (lablog app)) pid = Some p"
  shows "res = \<lparr>result = ''success'', AddOrUpdateCommentResult.comment_id = uuid\<rparr>"
    and "lablog app' =
      (lablog app)\<lparr>Lablog.comments := AList.update uuid
          \<lparr>CommentData.name = AddCommentData.name data,
           CommentData.content = AddCommentData.content data,
           CommentData.contact_address = AddCommentData.contact_address data,
           CommentData.created_timestamp = Finite now,
           ip_address = host,
           CommentData.comment_id = uuid,
           CommentData.post_id = pid,
           display = False\<rparr> (Lablog.comments (lablog app)),
        posts := AList.update pid (p\<lparr>PostMetadata.comments := PostMetadata.comments p @ [uuid]\<rparr>)
          (posts (lablog app))\<rparr>"
  using ok post
  by (auto simp add: add_comment_for_post_def add_comment_def Let_def split: prod.splits if_splits)

lemma modify_comment_display:
  assumes "map_of (Lablog.comments s) cid = Some c"
  shows "modify_comment s cid None None None None None None (Some d) =
     (Inr (), s\<lparr>Lablog.comments := AList.update cid (c\<lparr>display := d\<rparr>) (Lablog.comments s)\<rparr>)"
  using assms by (simp add: modify_comment_def if_not_None_def set_comment_attr_def)

text \<open>
  C6 (amended). Let \<open>POST /comments/{post_id}\<close> succeed with a generated id that occurs
  neither in the comments map nor in the post's list. Then the stored comment has
  \<open>display = False\<close>, and \<open>GET /comments/{post_id}\<close> answers exactly what it answered
  before the submission, a list or an exception. After \<open>modify_comment\<close> with
  \<open>display = True\<close> (which returns normally): where the answer was a list, it is now that
  list plus one \<open>DisplayCommentData\<close> made of the submitted name and content and of the
  creation time truncated to an integer, in ascending order of time; where the answer
  was an exception (\<open>int(...)\<close> on the infinite or NaN timestamp of another displayed
  comment of the post), it is the same exception. \<open>DisplayCommentData\<close> has these three
  fields and no other.
\<close>

theorem public_comment_hidden_until_approved:
  assumes post: "map_of (posts (lablog app)) pid = Some p"
    and fresh: "map_of (Lablog.comments (lablog app)) uuid = None" "uuid \<notin> set (PostMetadata.comments p)"
    and ok: "add_comment_for_post lib app pid data host dt now uuid = (Inr res, app')"
  shows "AddOrUpdateCommentResult.comment_id res = uuid \<and>
     (\<exists>c. map_of (Lablog.comments (lablog app')) uuid = Some c \<and> \<not> display c) \<and>
     get_comments_for_post app' pid = get_comments_for_post app pid \<and>
     fst (modify_comment (lablog app') uuid None None None None None None (Some True)) = Inr () \<and>
     (\<forall>old. get_comments_for_post app pid = Inr old \<longrightarrow>
        (\<exists>new.
           get_comments_for_post
             (app'\<lparr>lablog := snd (modify_comment (lablog app') uuid None None None None None None (Some True))\<rparr>)
             pid = Inr new \<and>
           mset new = mset old +
             {#\<lparr>DisplayCommentData.name = AddCommentData.name data,
                DisplayCommentData.content = AddCommentData.content data,
                DisplayCommentData.created_timestamp = trunc_toward_zero now\<rparr>#} \<and>
           sorted (map DisplayCommentData.created_timestamp new))) \<and>
     (\<forall>e. get_comments_for_post app pid = Inl e \<longrightarrow>
        get_comments_for_post
          (app'\<lparr>lablog := snd (modify_comment (lablog app') uuid None None None None None None (Some True))\<rparr>)
          pid = Inl e)"
proof -
  define cm where "cm =
          \<lparr>CommentData.name = AddCommentData.name data,
           CommentData.content = AddCommentData.content data,
           CommentData.contact_address = AddCommentData.contact_address data,
           CommentData.created_timestamp = Finite now,
           ip_address = host,
           CommentData.comment_id = uuid,
           CommentData.post_id = pid,
           display = False\<rparr>"
  define d where "d =
          \<lparr>DisplayCommentData.name = AddCommentData.name data,
           DisplayCommentData.content = AddCommentData.content data,
           DisplayCommentData.created_timestamp = trunc_toward_zero now\<rparr>"
  define ids where "ids = PostMetadata.comments p"
  define s where "s = lablog app"
  define s' where "s' = lablog app'"
  define s2 where "s2 = snd (modify_comment s' uuid None None None None None None (Some True))"
  have res: "res = \<lparr>result = ''success'', AddOrUpdateCommentResult.comment_id = uuid\<rparr>"
    using add_comment_for_post_success(1) [OF ok post] .
  have s': "s' = s\<lparr>Lablog.comments := AList.update uuid cm (Lablog.comments s),
        posts := AList.update pid (p\<lparr>PostMetadata.comments := ids @ [uuid]\<rparr>) (posts s)\<rparr>"
    using add_comment_for_post_success(2) [OF ok post] by (simp add: cm_def s_def s'_def ids_def)
  have look': "map_of (Lablog.comments s') uuid = Some cm"
    by (simp add: s' AList.update_conv')
  have post': "map_of (posts s') pid = Some (p\<lparr>PostMetadata.comments := ids @ [uuid]\<rparr>)"
    by (simp add: s' AList.update_conv')
  have other': "\<forall>cid \<in> set ids. map_of (Lablog.comments s') cid = map_of (Lablog.comments s) cid"
    using fresh(2) by (auto simp add: s' AList.update_conv' ids_def)
  have hidden: "display_loop s' acc [uuid] = Inr acc" for acc
    by (simp add: look' cm_def)
  have loop': "display_loop s' [] (ids @ [uuid]) = display_loop s [] ids"
    by (simp add: display_loop_append display_loop_cong [OF other'] hidden split: sum.splits
        del: display_loop.simps)
  have same: "get_comments_for_display s' (ids @ [uuid]) = get_comments_for_display s ids"
    by (simp add: get_comments_for_display_def loop')
  have m: "modify_comment s' uuid None None None None None None (Some True) =
     (Inr (), s'\<lparr>Lablog.comments := AList.update uuid (cm\<lparr>display := True\<rparr>) (Lablog.comments s')\<rparr>)"
    by (rule modify_comment_display [OF look'])
  have s2: "s2 = s'\<lparr>Lablog.comments := AList.update uuid (cm\<lparr>display := True\<rparr>) (Lablog.comments s')\<rparr>"
    by (simp add: s2_def m)
  have post2: "map_of (posts s2) pid = Some (p\<lparr>PostMetadata.comments := ids @ [uuid]\<rparr>)"
    by (simp add: s2 post')
  have other2: "\<forall>cid \<in> set ids. map_of (Lablog.comments s2) cid = map_of (Lablog.comments s) cid"
    using fresh(2) other' by (auto simp add: s2 AList.update_conv' ids_def)
  have visible: "display_loop s2 acc [uuid] = Inr (acc @ [d])" for acc
    by (simp add: s2 AList.update_conv' cm_def to_display_def py_int_def d_def)
  have loop2: "display_loop s2 [] (ids @ [uuid]) =
      (case display_loop s [] ids of Inl e \<Rightarrow> Inl e | Inr acc \<Rightarrow> Inr (acc @ [d]))"
    by (simp add: display_loop_append display_loop_cong [OF other2] visible split: sum.splits
        del: display_loop.simps)
  have view: "get_comments_for_post app pid = get_comments_for_display s ids"
    using post by (simp add: get_comments_for_post_def s_def ids_def)
  have view2: "get_comments_for_post
          (app'\<lparr>lablog := snd (modify_comment (lablog app') uuid None None None None None None (Some True))\<rparr>)
          pid = get_comments_for_display s2 (ids @ [uuid])"
    using post2 by (simp add: get_comments_for_post_def s2_def s'_def)
  have 1: "AddOrUpdateCommentResult.comment_id res = uuid"
    by (simp add: res)
  have 2: "\<exists>c. map_of (Lablog.comments (lablog app')) uuid = Some c \<and> \<not> display c"
    using look' by (simp add: s'_def cm_def)
  have 3: "get_comments_for_post app' pid = get_comments_for_post app pid"
    using post post' same by (simp add: get_comments_for_post_def s_def s'_def ids_def)
  have 4: "fst (modify_comment (lablog app') uuid None None None None None None (Some True)) = Inr ()"
    using m by (simp add: s'_def)
  have 5: "\<exists>new. get_comments_for_display s2 (ids @ [uuid]) = Inr new \<and>
             mset new = mset old + {#d#} \<and> sorted (map DisplayCommentData.created_timestamp new)"
    if "get_comments_for_display s ids = Inr old" for old
    using that by (auto simp add: get_comments_for_display_def loop2 split: sum.splits)
  have 6: "get_comments_for_display s2 (ids @ [uuid]) = Inl e"
    if "get_comments_for_display s ids = Inl e" for e
    using that by (auto simp add: get_comments_for_display_def loop2 split: sum.splits)
  from 1 2 3 4 5 6 show ?thesis
    unfolding view view2 d_def by blast
qed

lemma trunc_example: "trunc_toward_zero (141 / 2) = 70" "trunc_toward_zero 50 = 50"
  by (simp_all add: trunc_toward_zero_def floor_unique)

theorem public_comment_hidden_until_approved_witness:
  "get_comments_for_post ex_app ''p1'' =
     Inr [\<lparr>DisplayCommentData.name = ''N'', DisplayCommentData.content = ''C'',
           DisplayCommentData.created_timestamp = 50\<rparr>] \<and>
   get_comments_for_post
     (snd (add_comment_for_post ex_lib ex_app ''p1'' ex_comment_data ''10.0.0.2'' 0 (141 / 2) ''c2'')) ''p1'' =
     get_comments_for_post ex_app ''p1'' \<and>
   (\<exists>new.
      get_comments_for_post
        ((snd (add_comment_for_post ex_lib ex_app ''p1'' ex_comment_data ''10.0.0.2'' 0 (141 / 2) ''c2''))
           \<lparr>lablog := snd (modify_comment
              (lablog (snd (add_comment_for_post ex_lib ex_app ''p1'' ex_comment_data ''10.0.0.2'' 0 (141 / 2) ''c2'')))
              ''c2'' None None None None None None (Some True))\<rparr>) ''p1'' = Inr new \<and>
      mset new =
        {#\<lparr>DisplayCommentData.name = ''N'', DisplayCommentData.content = ''C'',
            DisplayCommentData.created_timestamp = 50\<rparr>,
          \<lparr>DisplayCommentData.name = ''ann'', DisplayCommentData.content = ''hello'',
            DisplayCommentData.created_timestamp = 70\<rparr>#})"
proof -
  have post: "map_of (posts (lablog ex_app)) ''p1'' = Some (ex_post ''p1'' 100 [''c1''])"
    and fresh: "map_of (Lablog.comments (lablog ex_app)) ''c2'' = None"
      "''c2'' \<notin> set (PostMetadata.comments (ex_post ''p1'' 100 [''c1'']))"
    by (simp_all add: ex_app_def ex_store_def ex_post_def)
  have spam: "\<not> sublist ''casino'' ''hello''"
    by (simp add: sublist_Cons_right)
  have "fst (add_comment_for_post ex_lib ex_app ''p1'' ex_comment_data ''10.0.0.2'' 0 (141 / 2) ''c2'')
      = Inr \<lparr>result = ''success'', AddOrUpdateCommentResult.comment_id = ''c2''\<rparr>"
    by (simp add: add_comment_for_post_def is_rate_limited_def is_spam_def add_comment_def
      ex_app_def ex_lib_def ex_comment_data_def ex_store_def timedelta_minutes_def spam)
  then have ok: "add_comment_for_post ex_lib ex_app ''p1'' ex_comment_data ''10.0.0.2'' 0 (141 / 2) ''c2'' =
      (Inr \<lparr>result = ''success'', AddOrUpdateCommentResult.comment_id = ''c2''\<rparr>,
       snd (add_comment_for_post ex_lib ex_app ''p1'' ex_comment_data ''10.0.0.2'' 0 (141 / 2) ''c2''))"
    by (simp add: prod_eq_iff)
  have old: "get_comments_for_post ex_app ''p1'' =
     Inr [\<lparr>DisplayCommentData.name = ''N'', DisplayCommentData.content = ''C'',
           DisplayCommentData.created_timestamp = 50\<rparr>]"
    by (simp add: get_comments_for_post_def get_comments_for_display_def ex_app_def ex_store_def
        ex_post_def ex_comment_def to_display_def py_int_def trunc_example)
  show ?thesis
    using public_comment_hidden_until_approved [OF post fresh ok] old
    by (auto simp add: ex_comment_data_def trunc_example)
qed

text \<open>
  C6 as stated fails: in \<open>ex_app_inf\<close> the post \<open>p1\<close> has a displayed comment with an
  infinite timestamp. The public submission succeeds, the update to \<open>display = True\<close>
  returns normally, and \<open>GET /comments/p1\<close> raises \<open>OverflowError\<close>: the approved
  comment is not included in any answer.
\<close>

theorem approved_comment_not_shown_beside_infinite_timestamp:
  "fst (add_comment_for_post ex_lib ex_app_inf ''p1'' ex_comment_data ''10.0.0.2'' 0 (141 / 2) ''c2'') =
     Inr \<lparr>result = ''success'', AddOrUpdateCommentResult.comment_id = ''c2''\<rparr> \<and>
   fst (modify_comment
          (lablog (snd (add_comment_for_post ex_lib ex_app_inf ''p1'' ex_comment_data ''10.0.0.2'' 0 (141 / 2) ''c2'')))
          ''c2'' None None None None None None (Some True)) = Inr () \<and>
   get_comments_for_post
     ((snd (add_comment_for_post ex_lib ex_app_inf ''p1'' ex_comment_data ''10.0.0.2'' 0 (141 / 2) ''c2''))
        \<lparr>lablog := snd (modify_comment
           (lablog (snd (add_comment_for_post ex_lib ex_app_inf ''p1'' ex_comment_data ''10.0.0.2'' 0 (141 / 2) ''c2'')))
           ''c2'' None None None None None None (Some True))\<rparr>) ''p1'' = Inl OverflowError"
proof -
  have spam: "\<not> sublist ''casino'' ''hello''"
    by (simp add: sublist_Cons_right)
  show ?thesis
    by (simp add: add_comment_for_post_def is_rate_limited_def is_spam_def add_comment_def
        modify_comment_def if_not_None_def set_comment_attr_def
        get_comments_for_post_def get_comments_for_display_def to_display_def py_int_def
        ex_app_inf_def ex_app_def ex_inf_store_def ex_lib_def ex_comment_data_def ex_store_def
        ex_post_def ex_comment_def timedelta_minutes_def spam)
qed

section \<open>The rate limiter\<close>

lemma filter_none: "list_all (\<lambda>x. \<not> P x) xs \<Longrightarrow> filter P xs = []"
  by (induction xs) auto

lemma rate_checks_window:
  assumes old: "list_all (\<lambda>t. \<not> t1 - t < timedelta_minutes 30) (data h)"
    and ord: "t1 \<le> t2" "t2 \<le> t3" "t3 \<le> t4" "t4 \<le> t5" "t5 \<le> t6"
    and win: "t6 - t1 < timedelta_minutes 30"
  shows "rate_checks data h [t1, t2, t3, t4, t5, t6] = [False, False, False, False, False, True]"
  using ord win by (simp add: is_rate_limited_def Let_def filter_none [OF old])

text \<open>
  C7 (amended). A check for a host keeps the recorded timestamps that are less than \<open>period\<close>
  old (every timestamp older than the period is discarded, and so is one that is
  exactly \<open>period\<close> old). It reports "limited" exactly when at least \<open>limit\<close> of them
  remain, and then records nothing; otherwise it appends the current time. The
  lists of the other hosts are untouched. Consequently, with the default limit 5 and
  period of 30 minutes, six checks of one host at times \<open>t1 \<le> ... \<le> t6\<close> less than
  30 minutes apart, starting with no timestamp younger than 30 minutes on record,
  answer: the first five pass, the sixth is limited.
\<close>

theorem is_rate_limited_spec:
  "(let kept = filter (\<lambda>t. now - t < period) (data h);
        r = is_rate_limited data h now limit period
    in fst r = (limit \<le> int (length kept)) \<and>
       snd r h = (if fst r then kept else kept @ [now]) \<and>
       (\<forall>h'. h' \<noteq> h \<longrightarrow> snd r h' = data h')) \<and>
   (list_all (\<lambda>t. timedelta_minutes 30 \<le> t1 - t) (data h) \<and>
    t1 \<le> t2 \<and> t2 \<le> t3 \<and> t3 \<le> t4 \<and> t4 \<le> t5 \<and> t5 \<le> t6 \<and> t6 - t1 < timedelta_minutes 30 \<longrightarrow>
      rate_checks data h [t1, t2, t3, t4, t5, t6] = [False, False, False, False, False, True])"
proof -
  have step: "let kept = filter (\<lambda>t. now - t < period) (data h);
        r = is_rate_limited data h now limit period
    in fst r = (limit \<le> int (length kept)) \<and>
       snd r h = (if fst r then kept else kept @ [now]) \<and>
       (\<forall>h'. h' \<noteq> h \<longrightarrow> snd r h' = data h')"
    by (simp add: is_rate_limited_def Let_def)
  have run: "rate_checks data h [t1, t2, t3, t4, t5, t6] = [False, False, False, False, False, True]"
    if old: "list_all (\<lambda>t. timedelta_minutes 30 \<le> t1 - t) (data h)"
      and ord: "t1 \<le> t2" "t2 \<le> t3" "t3 \<le> t4" "t4 \<le> t5" "t5 \<le> t6"
      and win: "t6 - t1 < timedelta_minutes 30"
  proof -
    from old have "list_all (\<lambda>t. \<not> t1 - t < timedelta_minutes 30) (data h)"
      by (simp add: not_less)
    then show ?thesis
      using ord win by (rule rate_checks_window)
  qed
  from step run show ?thesis
    by blast
qed

theorem is_rate_limited_spec_witness:
  "fst (is_rate_limited (\<lambda>client_host. [0, 1, 2, 3, 1800000000]) ''10.0.0.2'' 1800000001 5
          (timedelta_minutes 30)) = False \<and>
   snd (is_rate_limited (\<lambda>client_host. [0, 1, 2, 3, 1800000000]) ''10.0.0.2'' 1800000001 5
          (timedelta_minutes 30)) ''10.0.0.2'' = [2, 3, 1800000000, 1800000001] \<and>
   rate_checks (\<lambda>client_host. []) ''10.0.0.2''
     [0, 60000000, 120000000, 180000000, 240000000, 1799999999] =
     [False, False, False, False, False, True]"
  using is_rate_limited_spec [where data = "\<lambda>client_host. [0, 1, 2, 3, 1800000000]"
      and h = "''10.0.0.2''" and now = 1800000001 and limit = 5 and period = "timedelta_minutes 30"
      and ?t1.0 = 0 and ?t2.0 = 0 and ?t3.0 = 0 and ?t4.0 = 0 and ?t5.0 = 0 and ?t6.0 = 0]
    is_rate_limited_spec [where data = "\<lambda>client_host. []"
      and h = "''10.0.0.2''" and now = 0 and limit = 5 and period = "timedelta_minutes 30"
      and ?t1.0 = 0 and ?t2.0 = 60000000 and ?t3.0 = 120000000 and ?t4.0 = 180000000
      and ?t5.0 = 240000000 and ?t6.0 = 1799999999]
  by (simp add: timedelta_minutes_def Let_def)

text \<open>
  C7 as stated fails: with the timestamps 0 to 4 microseconds on record and a check
  exactly 30 minutes after the first of them, discarding the timestamps older than 30
  minutes leaves five and reports "limited", while the code discards the first one as
  well and reports "not limited". Likewise a sixth check exactly 30 minutes after the
  first passes.
\<close>

theorem timestamp_exactly_one_period_old_is_discarded:
  "fst (is_rate_limited_as_worded (\<lambda>client_host. [0, 1, 2, 3, 4]) ''10.0.0.2'' 1800000000 5
          (timedelta_minutes 30)) = True \<and>
   fst (is_rate_limited (\<lambda>client_host. [0, 1, 2, 3, 4]) ''10.0.0.2'' 1800000000 5
          (timedelta_minutes 30)) = False \<and>
   rate_checks (\<lambda>client_host. []) ''10.0.0.2'' [0, 1, 2, 3, 4, 1800000000] =
     [False, False, False, False, False, False]"
  by (simp add: is_rate_limited_as_worded_def is_rate_limited_def timedelta_minutes_def Let_def)

section \<open>Serializing and loading\<close>

lemma validate_str_list_dump: "validate_str_list (JArray (map JString xs)) = Some xs"
proof -
  have "all_valid (map validate_str (map JString xs)) = Some xs"
    by (induction xs) (simp_all add: validate_str_def)
  then show ?thesis
    by (simp add: validate_str_list_def)
qed

lemma validate_float_dump:
  assumes "validate_contract lib"
  shows "validate_float lib (dump_float x) = (if is_finite x then Some x else None)"
  using assms by (cases x) (simp_all add: validate_contract_def dump_float_def is_finite_def)

lemma validate_PostMetadata_dump:
  assumes "validate_contract lib"
  shows "validate_PostMetadata lib (dump_PostMetadata p) =
     (if is_finite (PostMetadata.created_timestamp p) then Some p else None)"
  by (simp add: validate_PostMetadata_def dump_PostMetadata_def required_field_def
      validate_str_def validate_str_list_dump validate_float_dump [OF assms])

lemma validate_CommentData_dump:
  assumes "validate_contract lib"
  shows "validate_CommentData lib (dump_CommentData c) =
     (if is_finite (CommentData.created_timestamp c) then Some c else None)"
proof -
  from assms have "validate_bool lib (JBool (display c)) = Some (display c)"
    by (simp add: validate_contract_def)
  then show ?thesis
    by (simp add: validate_CommentData_def dump_CommentData_def required_field_def
      validate_str_def validate_float_dump [OF assms])
qed

lemma validate_dict_dump:
  assumes "\<And>x. validate (dump x) = (if ok x then Some x else None)"
  shows "validate_dict validate (JObject (map (\<lambda>(k, x). (k, dump x)) al)) =
     (if list_all (\<lambda>(k, x). ok x) al then Some al else None)"
proof -
  have "all_valid (map (\<lambda>(k, v). case validate v of None \<Rightarrow> None | Some x \<Rightarrow> Some (k, x))
                 (map (\<lambda>(k, x). (k, dump x)) al)) =
     (if list_all (\<lambda>(k, x). ok x) al then Some al else None)"
    by (induction al) (auto simp add: assms)
  then show ?thesis
    by (simp add: validate_dict_def)
qed

lemma validate_BlogData_serialize:
  assumes "validate_contract lib"
  shows "validate_BlogData lib (serialize s) =
     (if timestamps_finite s then Inr s else Inl ValidationError)"
  by (simp add: validate_BlogData_def serialize_def dump_BlogData_def required_field_def
      timestamps_finite_def
      validate_dict_dump [where validate = "validate_PostMetadata lib" and dump = dump_PostMetadata
        and ok = "\<lambda>p. is_finite (PostMetadata.created_timestamp p)",
        OF validate_PostMetadata_dump [OF assms]]
      validate_dict_dump [where validate = "validate_CommentData lib" and dump = dump_CommentData
        and ok = "\<lambda>c. is_finite (CommentData.created_timestamp c)",
        OF validate_CommentData_dump [OF assms]])

lemma validate_contract_ex_lib: "validate_contract ex_lib"
  by (simp add: validate_contract_def ex_lib_def)



text \<open>
  C9 (amended). Let pydantic validate a \<open>float\<close> and a \<open>bool\<close> as documented. Loading
  the file that \<open>serialize_to_file\<close> wrote replaces the store by one whose posts and
  comments are those that were serialized, keys, order and field values, if every
  \<open>created_timestamp\<close> of the serialized store is finite. If one is an infinity or a
  NaN, it is written as \<open>null\<close>, and \<open>load_from_file\<close> raises \<open>ValidationError\<close> and leaves
  the store as it was.
\<close>

theorem serialize_load_roundtrip:
  assumes "validate_contract lib"
  shows "load_from_file lib (serialize_to_file s db) s0 =
     (if timestamps_finite s then (Inr (), s) else (Inl ValidationError, s0))"
  by (simp add: load_from_file_def serialize_to_file_def load_def
      validate_BlogData_serialize [OF assms])

theorem serialize_load_roundtrip_witness:
  "validate_contract ex_lib \<and> timestamps_finite ex_store \<and>
   load_from_file ex_lib (serialize_to_file ex_store LablogDatabaseManager_init) Lablog_init =
     (Inr (), ex_store)"
proof -
  have fin: "timestamps_finite ex_store"
    by (simp add: timestamps_finite_def ex_store_def ex_post_def ex_comment_def is_finite_def)
  show ?thesis
    using serialize_load_roundtrip [OF validate_contract_ex_lib, of ex_store
        LablogDatabaseManager_init Lablog_init] fin validate_contract_ex_lib
    by simp
qed

text \<open>
  C9 as stated fails: \<open>ex_inf_store\<close> has a comment with an infinite timestamp; the file
  written from it does not load.
\<close>

theorem infinite_timestamp_does_not_load:
  "load_from_file ex_lib (serialize_to_file ex_inf_store LablogDatabaseManager_init) Lablog_init =
     (Inl ValidationError, Lablog_init)"
proof -
  have "\<not> timestamps_finite ex_inf_store"
    by (simp add: timestamps_finite_def ex_inf_store_def ex_store_def ex_comment_def is_finite_def)
  then show ?thesis
    by (simp add: load_from_file_def serialize_to_file_def
        validate_BlogData_serialize [OF validate_contract_ex_lib])
qed

section \<open>Saving the database\<close>




section \<open>Referential integrity\<close>

text \<open>
  \<open>add_post\<close>, \<open>modify_post\<close>, \<open>add_comment\<close> (with a fresh id), \<open>delete_comment\<close> and
  \<open>modify_comment\<close> without a new \<open>post_id\<close> keep the store invariant, and with it
  referential integrity.
\<close>

lemma referential_integrity_iff:
  "referential_integrity s =
     (\<forall>k p cid. (k, p) \<in> set (posts s) \<longrightarrow> cid \<in> set (PostMetadata.comments p) \<longrightarrow>
        (\<exists>c. map_of (Lablog.comments s) cid = Some c \<and> CommentData.post_id c = PostMetadata.post_id p))"
  unfolding referential_integrity_def list_all_iff
  by (rule iffI) (force split: option.splits)+

lemma store_wf_iff:
  "store_wf s =
     (distinct (map fst (posts s)) \<and>
      (\<forall>k p. (k, p) \<in> set (posts s) \<longrightarrow> PostMetadata.post_id p = k \<and> distinct (PostMetadata.comments p)))"
  unfolding store_wf_def list_all_iff by auto

lemma in_set_update:
  "(a, b) \<in> set (AList.update k v al) \<Longrightarrow> distinct (map fst al) \<Longrightarrow>
     (a, b) = (k, v) \<or> ((a, b) \<in> set al \<and> a \<noteq> k)"
  by (induction al) (force split: if_splits)+

lemma store_invariant_add_post:
  assumes "store_invariant s"
  shows "store_invariant (snd (add_post s uuid now t a l ts c tg))"
  using assms
  by (auto simp add: store_invariant_def store_wf_iff referential_integrity_iff add_post_def
      AList.distinct_update dest!: in_set_update)

lemma store_invariant_set_post_attr:
  assumes "store_invariant s"
    and "\<And>p. PostMetadata.comments (f p) = PostMetadata.comments p"
    and "\<And>p. PostMetadata.post_id (f p) = PostMetadata.post_id p"
  shows "store_invariant (snd (set_post_attr pid f s))"
proof (cases "map_of (posts s) pid")
  case None
  with assms(1) show ?thesis by (simp add: set_post_attr_def)
next
  case (Some p)
  then have "(pid, p) \<in> set (posts s)" by (rule map_of_SomeD)
  with assms Some show ?thesis
    by (auto simp add: store_invariant_def store_wf_iff referential_integrity_iff set_post_attr_def
        AList.distinct_update dest!: in_set_update)
qed

lemma store_invariant_set_comment_attr:
  assumes inv: "store_invariant s"
    and keep: "\<And>c. CommentData.post_id (f c) = CommentData.post_id c"
  shows "store_invariant (snd (set_comment_attr cid f s))"
proof (cases "map_of (Lablog.comments s) cid")
  case None
  with inv show ?thesis
    by (simp add: set_comment_attr_def)
next
  case (Some c0)
  let ?s' = "s\<lparr>Lablog.comments := AList.update cid (f c0) (Lablog.comments s)\<rparr>"
  have "referential_integrity ?s'"
    unfolding referential_integrity_iff
  proof (intro allI impI)
    fix k p cid'
    assume "(k, p) \<in> set (posts ?s')" and "cid' \<in> set (PostMetadata.comments p)"
    with inv obtain c where c: "map_of (Lablog.comments s) cid' = Some c"
        "CommentData.post_id c = PostMetadata.post_id p"
      unfolding store_invariant_def referential_integrity_iff by fastforce
    show "\<exists>c. map_of (Lablog.comments ?s') cid' = Some c \<and>
              CommentData.post_id c = PostMetadata.post_id p"
      using c Some keep by (cases "cid' = cid") (simp_all add: AList.update_conv')
  qed
  moreover from inv have "store_wf ?s'"
    by (simp add: store_invariant_def store_wf_def)
  ultimately show ?thesis
    using Some by (simp add: set_comment_attr_def store_invariant_def)
qed

lemma store_invariant_if_not_None:
  assumes "store_invariant s" and "\<And>v s. store_invariant s \<Longrightarrow> store_invariant (snd (stmt v s))"
  shows "store_invariant (snd (if_not_None x stmt s))"
  using assms by (cases x) (simp_all add: if_not_None_def)

lemma store_invariant_run_stmts:
  assumes "\<forall>c \<in> set cs. \<forall>s. store_invariant s \<longrightarrow> store_invariant (snd (c s))"
    and "store_invariant s"
  shows "store_invariant (snd (run_stmts cs s))"
  using assms
proof (induction cs arbitrary: s)
  case Nil
  then show ?case by simp
next
  case (Cons c cs)
  from Cons.prems have step: "store_invariant (snd (c s))" by simp
  show ?case
  proof (cases "c s")
    case (Pair r s')
    with step have "store_invariant s'" by simp
    with Cons Pair show ?thesis by (cases r) simp_all
  qed
qed

lemma store_invariant_modify_post:
  assumes "store_invariant s"
  shows "store_invariant (snd (modify_post s pid t a l ts c tg))"
  unfolding modify_post_def
  by (rule store_invariant_run_stmts [OF _ assms])
    (auto intro!: store_invariant_if_not_None store_invariant_set_post_attr)

lemma if_not_None_None: "if_not_None None stmt s = (Inr (), s)"
  by (simp add: if_not_None_def)

lemma store_invariant_modify_comment:
  assumes "store_invariant s"
  shows "store_invariant (snd (modify_comment s cid n c a ts ip None d))"
  unfolding modify_comment_def
proof (rule store_invariant_run_stmts [OF _ assms])
  have keep: "store_invariant (snd (if_not_None x (\<lambda>v. set_comment_attr cid (f v)) s'))"
    if "store_invariant s'" and "\<And>v c. CommentData.post_id (f v c) = CommentData.post_id c"
    for x :: "'a option" and f s'
    using that by (auto intro!: store_invariant_if_not_None store_invariant_set_comment_attr)
  show "\<forall>c\<in>set
          [if_not_None n (\<lambda>v. set_comment_attr cid (\<lambda>c. c\<lparr>CommentData.name := v\<rparr>)),
           if_not_None c (\<lambda>v. set_comment_attr cid (\<lambda>c. c\<lparr>CommentData.content := v\<rparr>)),
           if_not_None a (\<lambda>v. set_comment_attr cid (\<lambda>c. c\<lparr>CommentData.contact_address := v\<rparr>)),
           if_not_None ts (\<lambda>v. set_comment_attr cid (\<lambda>c. c\<lparr>CommentData.created_timestamp := v\<rparr>)),
           if_not_None ip (\<lambda>v. set_comment_attr cid (\<lambda>c. c\<lparr>ip_address := v\<rparr>)),
           if_not_None None (\<lambda>v. set_comment_attr cid (\<lambda>c. c\<lparr>CommentData.post_id := v\<rparr>)),
           if_not_None d (\<lambda>v. set_comment_attr cid (\<lambda>c. c\<lparr>display := v\<rparr>))].
        \<forall>s. store_invariant s \<longrightarrow> store_invariant (snd (c s))"
    by (simp add: keep if_not_None_None)
qed

lemma store_invariant_add_comment:
  assumes inv: "store_invariant s" and fresh: "map_of (Lablog.comments s) uuid = None"
  shows "store_invariant (snd (add_comment s uuid now n c a pid ts ip d))"
proof (cases "map_of (posts s) pid")
  case None
  with inv show ?thesis by (simp add: add_comment_def)
next
  case (Some p)
  then have "(pid, p) \<in> set (posts s)" by (rule map_of_SomeD)
  with inv fresh Some show ?thesis
    by (fastforce simp add: store_invariant_def store_wf_iff referential_integrity_iff add_comment_def
        Let_def AList.distinct_update AList.update_conv' dest!: in_set_update)
qed

lemma store_invariant_delete_comment:
  assumes inv: "store_invariant s"
  shows "store_invariant (snd (delete_comment s cid))"
proof (cases "map_of (Lablog.comments s) cid")
  case None
  with inv show ?thesis by (simp add: delete_comment_def)
next
  case c: (Some c)
  show ?thesis
  proof (cases "map_of (posts s) (CommentData.post_id c)")
    case None
    with inv c show ?thesis by (simp add: delete_comment_def)
  next
    case (Some p)
    then have "(CommentData.post_id c, p) \<in> set (posts s)" by (rule map_of_SomeD)
    with inv c Some show ?thesis
      by (fastforce simp add: store_invariant_def store_wf_iff referential_integrity_iff
          delete_comment_def AList.distinct_update AList.delete_conv' dest!: in_set_update)
  qed
qed

text \<open>
  C1 (the code breaks the invariant). \<open>ex_store\<close> satisfies the store invariant,
  referential integrity included;
  \<open>modify_comment\<close> given the id of another existing post returns without an error,
  rewrites the comment's \<open>post_id\<close> and moves nothing between the posts' lists; the
  store it leaves no longer satisfies referential integrity.
\<close>

theorem modify_comment_breaks_referential_integrity:
  "store_invariant ex_store \<and>
   modify_comment ex_store ''c1'' None None None None None (Some ''p2'') None = (Inr (), ex_repointed) \<and>
   \<not> referential_integrity ex_repointed"
  by (simp add: store_invariant_def store_wf_def referential_integrity_def modify_comment_def if_not_None_def set_comment_attr_def
      ex_repointed_def ex_store_def ex_comment_def ex_post_def)

end
